theory Spec2Isabelle
  imports Main "HOL-Library.Sublist" "HOL-Library.AList"
begin

section \<open>JavaScript strings\<close>

text \<open>
  A JavaScript string is a sequence of UTF-16 code units. The model uses \<open>string\<close>: one
  \<open>char\<close> stands for one code unit in the range 0..255, which covers every character the
  source inspects (ASCII letters, digits, \<open>/\<close>, \<open>-\<close>, \<open>_\<close>, \<open>.\<close>, white space).
\<close>

definition is_ws :: "char \<Rightarrow> bool" where
  \<comment> \<open>the white space of \<open>String.prototype.trim\<close> below code unit 256:
      TAB, LF, VT, FF, CR, SPACE, NBSP\<close>
  "is_ws c = ((of_char c :: nat) \<in> {9, 10, 11, 12, 13, 32, 160})"

definition trim :: "string \<Rightarrow> string" where
  "trim s = rev (dropWhile is_ws (rev (dropWhile is_ws s)))"

definition startsWith :: "string \<Rightarrow> string \<Rightarrow> bool" where
  "startsWith s p = prefix p s"

fun js_includes :: "string \<Rightarrow> string \<Rightarrow> bool" where
  "js_includes [] pat = (pat = [])"
| "js_includes (c # cs) pat = (prefix pat (c # cs) \<or> js_includes cs pat)"

fun replace :: "string \<Rightarrow> string \<Rightarrow> string \<Rightarrow> string" where
  \<comment> \<open>\<open>s.replace(pat, rep)\<close> with a string pattern: only the first occurrence is replaced\<close>
  "replace [] pat rep = (if pat = [] then rep else [])"
| "replace (c # cs) pat rep =
     (if prefix pat (c # cs) then rep @ drop (length pat) (c # cs)
      else c # replace cs pat rep)"

section \<open>The regular expressions of the source\<close>

text \<open>
  Every regular expression literal of the source is a flat sequence of pieces: anchors,
  literal text, an optional literal group \<open>(?:lit)?\<close>, a character class, and a greedy
  repetition of a character class (captured when it is written in parentheses). The matcher
  is the backtracking matcher of ECMAScript restricted to these pieces: a greedy repetition
  tries the longest run first, an unanchored expression tries every start index from the left.
\<close>

datatype class_atom = Ch char | Range char char

datatype cclass = Class (negated: bool) (atoms: "class_atom list")

fun atom_has :: "class_atom \<Rightarrow> char \<Rightarrow> bool" where
  "atom_has (Ch a) c = (c = a)"
| "atom_has (Range lo hi) c = ((of_char lo :: nat) \<le> of_char c \<and> (of_char c :: nat) \<le> of_char hi)"

fun in_class :: "cclass \<Rightarrow> char \<Rightarrow> bool" where
  "in_class (Class neg as) c = (neg \<noteq> list_ex (\<lambda>a. atom_has a c) as)"

declare in_class.simps [simp del]

datatype piece =
    Bol                       \<comment> \<open>\<open>^\<close>\<close>
  | Eol                       \<comment> \<open>\<open>$\<close>\<close>
  | Lit string                \<comment> \<open>literal characters\<close>
  | OptLit string             \<comment> \<open>\<open>(?:lit)?\<close>\<close>
  | One cclass                \<comment> \<open>\<open>[...]\<close>\<close>
  | Many bool nat cclass      \<comment> \<open>\<open>[...]*\<close> (minimum 0) or \<open>[...]+\<close> (minimum 1); the flag says
                                  whether the repetition is a capture group\<close>

fun first_some :: "'a option list \<Rightarrow> 'a option" where
  "first_some [] = None"
| "first_some (None # xs) = first_some xs"
| "first_some (Some x # xs) = Some x"

text \<open>
  \<open>run ps b s\<close> matches the pieces \<open>ps\<close> against a prefix of \<open>s\<close>; \<open>b\<close> says that \<open>s\<close> is
  the whole input (the position is index 0). The result is the list of captured groups.
\<close>

fun run :: "piece list \<Rightarrow> bool \<Rightarrow> string \<Rightarrow> string list option" where
  "run [] b s = Some []"
| "run (Bol # ps) b s = (if b then run ps b s else None)"
| "run (Eol # ps) b s = (if s = [] then run ps b s else None)"
| "run (Lit l # ps) b s =
     (if prefix l s then run ps (b \<and> l = []) (drop (length l) s) else None)"
| "run (OptLit l # ps) b s =
     (case (if prefix l s then run ps (b \<and> l = []) (drop (length l) s) else None) of
        Some caps \<Rightarrow> Some caps
      | None \<Rightarrow> run ps b s)"
| "run (One c # ps) b s =
     (case s of [] \<Rightarrow> None
      | x # xs \<Rightarrow> if in_class c x then run ps False xs else None)"
| "run (Many cap lo c # ps) b s =
     (let n = length (takeWhile (in_class c) s)
      in first_some
           (map (\<lambda>k. map_option (\<lambda>caps. if cap then take k s # caps else caps)
                       (run ps (b \<and> k = 0) (drop k s)))
                (rev [lo..<Suc n])))"

definition regex_match :: "piece list \<Rightarrow> string \<Rightarrow> string list option" where
  \<comment> \<open>\<open>s.match(re)\<close> without the \<open>g\<close> flag: the captures of the leftmost match\<close>
  "regex_match re s =
     first_some (map (\<lambda>i. run re (i = 0) (drop i s)) [0..<Suc (length s)])"

definition regex_test :: "piece list \<Rightarrow> string \<Rightarrow> bool" where
  "regex_test re s = (regex_match re s \<noteq> None)"

definition alnum :: "class_atom list" where
  \<comment> \<open>\<open>a-zA-Z0-9\<close>\<close>
  "alnum = [Range CHR ''a'' CHR ''z'', Range CHR ''A'' CHR ''Z'', Range CHR ''0'' CHR ''9'']"

definition not_slash :: cclass where
  \<comment> \<open>\<open>[^\/]\<close>\<close>
  "not_slash = Class True [Ch CHR ''/'']"

definition repositoryUrl_re :: "piece list" where
  \<comment> \<open>\<open>/^https:\/\/github\.com\/[^\/]+\/[^\/]+(?:\.git)?$/\<close>\<close>
  "repositoryUrl_re =
     [Bol, Lit ''https://github.com/'', Many False 1 not_slash, Lit ''/'',
      Many False 1 not_slash, OptLit ''.git'', Eol]"

definition projectName_re :: "piece list" where
  \<comment> \<open>\<open>/^[a-zA-Z0-9-_]+$/\<close>\<close>
  "projectName_re = [Bol, Many False 1 (Class False (alnum @ [Ch CHR ''-'', Ch CHR ''_''])), Eol]"

definition domainName_re :: "piece list" where
  \<comment> \<open>\<open>/^[a-zA-Z0-9][a-zA-Z0-9-]*[a-zA-Z0-9]*$/\<close>\<close>
  "domainName_re =
     [Bol, One (Class False alnum), Many False 0 (Class False (alnum @ [Ch CHR ''-''])),
      Many False 0 (Class False alnum), Eol]"

definition gitHubInfo_re :: "piece list" where
  \<comment> \<open>\<open>/github\.com\/([^\/]+)\/([^\/]+)(?:\.git)?$/\<close>\<close>
  "gitHubInfo_re =
     [Lit ''github.com/'', Many True 1 not_slash, Lit ''/'', Many True 1 not_slash,
      OptLit ''.git'', Eol]"

section \<open>The deployment form (client)\<close>

datatype target = production | preview

record envVar =
  key :: string
  val :: string

record FormData =
  repositoryUrl :: string
  userName :: string
  password :: string
  domainName :: string
  projectName :: string
  branch :: string
  target :: target
  envVars :: "envVar list"

text \<open>
  \<open>FormErrors\<close> is a JavaScript object used as a dictionary: an association list in
  insertion order, written with \<open>AList.update\<close> and \<open>AList.delete\<close>.
\<close>

type_synonym FormErrors = "(string \<times> string) list"

text \<open>
  \<open>validateForm\<close> runs seven blocks one after the other on the same \<open>newErrors\<close> object;
  each block is a definition here, named after the field it checks.
\<close>

definition check_repositoryUrl :: "FormData \<Rightarrow> FormErrors \<Rightarrow> FormErrors" where
  \<comment> \<open>"Repository URL validation"\<close>
  "check_repositoryUrl formData newErrors =
     (if trim (repositoryUrl formData) = [] then
        AList.update ''repositoryUrl'' ''Repository URL is required'' newErrors
      else if \<not> js_includes (repositoryUrl formData) ''github.com'' then
        AList.update ''repositoryUrl'' ''Please enter a valid GitHub repository URL'' newErrors
      else if \<not> regex_test repositoryUrl_re (repositoryUrl formData) then
        AList.update ''repositoryUrl''
          ''Invalid format. Use: https://github.com/username/repository'' newErrors
      else newErrors)"

definition check_userName :: "FormData \<Rightarrow> FormErrors \<Rightarrow> FormErrors" where
  \<comment> \<open>"Username validation"\<close>
  "check_userName formData newErrors =
     (if trim (userName formData) = [] then
        AList.update ''userName'' ''Username is required'' newErrors
      else if length (userName formData) < 3 then
        AList.update ''userName'' ''Username must be at least 3 characters'' newErrors
      else newErrors)"

definition check_password :: "FormData \<Rightarrow> FormErrors \<Rightarrow> FormErrors" where
  \<comment> \<open>"Password validation (optional - for user convenience)"\<close>
  "check_password formData newErrors =
     (if password formData \<noteq> [] \<and> length (password formData) < 6 then
        AList.update ''password'' ''Password must be at least 6 characters'' newErrors
      else newErrors)"

definition check_projectName :: "FormData \<Rightarrow> FormErrors \<Rightarrow> FormErrors" where
  \<comment> \<open>"Project name validation"\<close>
  "check_projectName formData newErrors =
     (if trim (projectName formData) = [] then
        AList.update ''projectName'' ''Project name is required'' newErrors
      else if \<not> regex_test projectName_re (projectName formData) then
        AList.update ''projectName''
          ''Only letters, numbers, hyphens, and underscores allowed'' newErrors
      else newErrors)"

definition check_branch :: "FormData \<Rightarrow> FormErrors \<Rightarrow> FormErrors" where
  \<comment> \<open>"Branch validation"\<close>
  "check_branch formData newErrors =
     (if trim (branch formData) = [] then
        AList.update ''branch'' ''Branch is required'' newErrors
      else newErrors)"

definition check_domainName :: "FormData \<Rightarrow> FormErrors \<Rightarrow> FormErrors" where
  \<comment> \<open>"Domain validation (optional)"\<close>
  "check_domainName formData newErrors =
     (if domainName formData \<noteq> [] \<and> \<not> regex_test domainName_re (domainName formData) then
        AList.update ''domainName'' ''Invalid domain format (e.g., mydomain.com)'' newErrors
      else newErrors)"

definition check_envVars :: "FormData \<Rightarrow> FormErrors \<Rightarrow> FormErrors" where
  \<comment> \<open>"Environment variables validation"\<close>
  "check_envVars formData newErrors =
     (let invalidEnvVars =
            filter (\<lambda>envVar. trim (key envVar) = [] \<or> trim (val envVar) = []) (envVars formData)
      in if length invalidEnvVars > 0 then
           AList.update ''envVars''
             ''All environment variables must have both key and value'' newErrors
         else newErrors)"

definition validateForm :: "FormData \<Rightarrow> FormErrors \<times> bool" where
  \<comment> \<open>the pair of \<open>newErrors\<close>, which the source stores with \<open>setErrors\<close>, and the returned flag\<close>
  "validateForm formData =
    (let newErrors = [];
         newErrors = check_repositoryUrl formData newErrors;
         newErrors = check_userName formData newErrors;
         newErrors = check_password formData newErrors;
         newErrors = check_projectName formData newErrors;
         newErrors = check_branch formData newErrors;
         newErrors = check_domainName formData newErrors;
         newErrors = check_envVars formData newErrors
     in (newErrors, length newErrors = 0))"

section \<open>JSON values\<close>

text \<open>
  The result of \<open>JSON.parse\<close>. An object is the list of its properties in enumeration
  order, with distinct keys. Numbers are integers, printed in decimal as \<open>JSON.stringify\<close>
  prints the integers below \<open>10^21\<close> that a double holds exactly; the source never computes
  with a number of a request.
\<close>

datatype json =
    JNull | JBool bool | JNum int | JStr string | JArr "json list" | JObj "(string \<times> json) list"

definition get_prop :: "(string \<times> json) list \<Rightarrow> string \<Rightarrow> json option" where
  \<comment> \<open>\<open>obj[k]\<close>; \<open>None\<close> is \<open>undefined\<close>\<close>
  "get_prop ps k = map_of ps k"

definition digit_char :: "nat \<Rightarrow> char" where
  "digit_char d = char_of (of_char CHR ''0'' + d)"

fun decimal :: "nat \<Rightarrow> string" where
  \<comment> \<open>the decimal digits of a natural number, as \<open>String(n)\<close> writes them\<close>
  "decimal n = (if 10 \<le> n then decimal (n div 10) @ [digit_char (n mod 10)] else [digit_char n])"

declare decimal.simps [simp del]

definition number_string :: "int \<Rightarrow> string" where
  "number_string i = (if 0 \<le> i then decimal (nat i) else CHR ''-'' # decimal (nat (- i)))"

definition hex_digit :: "nat \<Rightarrow> char" where
  "hex_digit n = (if n < 10 then digit_char n else char_of (of_char CHR ''a'' + (n - 10)))"

definition quote_char :: "char \<Rightarrow> string" where
  \<comment> \<open>the escapes of \<open>JSON.stringify\<close>; 0x22 is the double quote, 0x5C the backslash\<close>
  "quote_char c =
     (let n = (of_char c :: nat) in
      if n = 0x22 then [CHR 0x5C, CHR 0x22]
      else if n = 0x5C then [CHR 0x5C, CHR 0x5C]
      else if n = 8 then [CHR 0x5C, CHR ''b'']
      else if n = 9 then [CHR 0x5C, CHR ''t'']
      else if n = 10 then [CHR 0x5C, CHR ''n'']
      else if n = 12 then [CHR 0x5C, CHR ''f'']
      else if n = 13 then [CHR 0x5C, CHR ''r'']
      else if n < 32 then [CHR 0x5C, CHR ''u'', CHR ''0'', CHR ''0'', hex_digit (n div 16), hex_digit (n mod 16)]
      else [c])"

definition quote :: "string \<Rightarrow> string" where
  "quote s = CHR 0x22 # concat (map quote_char s) @ [CHR 0x22]"

fun join :: "string \<Rightarrow> string list \<Rightarrow> string" where
  \<comment> \<open>\<open>xs.join(sep)\<close>\<close>
  "join sep [] = []"
| "join sep [x] = x"
| "join sep (x # y # ys) = x @ sep @ join sep (y # ys)"

fun stringify :: "json \<Rightarrow> string" where
  \<comment> \<open>\<open>JSON.stringify(v)\<close> without indentation\<close>
  "stringify JNull = ''null''"
| "stringify (JBool b) = (if b then ''true'' else ''false'')"
| "stringify (JNum i) = number_string i"
| "stringify (JStr s) = quote s"
| "stringify (JArr vs) = ''['' @ join '','' (map stringify vs) @ '']''"
| "stringify (JObj ps) =
     ''{'' @ join '','' (map (\<lambda>(k, v). quote k @ '':'' @ stringify v) ps) @ ''}''"

section \<open>The request schema (server)\<close>

text \<open>
  \<open>deploymentSchema\<close> is a schema of the zod library. Two things of zod are not part of the
  repository: the test behind \<open>z.string().url()\<close> (the URL parser of the runtime), taken as
  the parameter \<open>is_url\<close>, and the text of the messages zod writes when the source gives
  none (a value of the wrong type, a missing value, a string outside an enumeration): such an
  issue has the message \<open>None\<close>.
\<close>

datatype seg = Key string | Idx nat

record issue =
  path :: "seg list"
  message :: "string option"

record validatedData =
  v_repositoryUrl :: string
  v_userName :: string
  v_password :: "string option"
  v_domainName :: "string option"
  v_projectName :: string
  v_branch :: string
  v_target :: target
  v_envVars :: "envVar list"

definition issues_of :: "issue list + 'a \<Rightarrow> issue list" where
  "issues_of r = (case r of Inl is \<Rightarrow> is | Inr _ \<Rightarrow> [])"

definition z_string_min1 :: "seg list \<Rightarrow> string \<Rightarrow> json option \<Rightarrow> issue list + string" where
  \<comment> \<open>\<open>z.string().min(1, msg)\<close>\<close>
  "z_string_min1 p msg v =
     (case v of
        Some (JStr s) \<Rightarrow> if length s < 1 then Inl [\<lparr>path = p, message = Some msg\<rparr>] else Inr s
      | _ \<Rightarrow> Inl [\<lparr>path = p, message = None\<rparr>])"

definition z_string_optional :: "seg list \<Rightarrow> json option \<Rightarrow> issue list + string option" where
  \<comment> \<open>\<open>z.string().optional()\<close>\<close>
  "z_string_optional p v =
     (case v of
        None \<Rightarrow> Inr None
      | Some (JStr s) \<Rightarrow> Inr (Some s)
      | _ \<Rightarrow> Inl [\<lparr>path = p, message = None\<rparr>])"

definition z_repositoryUrl :: "(string \<Rightarrow> bool) \<Rightarrow> json option \<Rightarrow> issue list + string" where
  \<comment> \<open>\<open>z.string().url('Invalid repository URL').refine(url => url.includes('github.com'), ...)\<close>:
      the refinement also runs on a string that failed the URL check\<close>
  "z_repositoryUrl is_url v =
     (case v of
        Some (JStr s) \<Rightarrow>
          (let is = (if is_url s then []
                     else [\<lparr>path = [Key ''repositoryUrl''], message = Some ''Invalid repository URL''\<rparr>])
                  @ (if js_includes s ''github.com'' then []
                     else [\<lparr>path = [Key ''repositoryUrl''],
                            message = Some ''Only GitHub repositories are supported''\<rparr>])
           in if is = [] then Inr s else Inl is)
      | _ \<Rightarrow> Inl [\<lparr>path = [Key ''repositoryUrl''], message = None\<rparr>])"

definition z_branch :: "json option \<Rightarrow> issue list + string" where
  \<comment> \<open>\<open>z.string().min(1, 'Branch is required').default('main')\<close>\<close>
  "z_branch v =
     (case v of None \<Rightarrow> Inr ''main'' | Some _ \<Rightarrow> z_string_min1 [Key ''branch''] ''Branch is required'' v)"

definition z_target :: "json option \<Rightarrow> issue list + target" where
  \<comment> \<open>\<open>z.enum(['production', 'preview']).default('production')\<close>\<close>
  "z_target v =
     (case v of
        None \<Rightarrow> Inr production
      | Some (JStr s) \<Rightarrow>
          if s = ''production'' then Inr production
          else if s = ''preview'' then Inr preview
          else Inl [\<lparr>path = [Key ''target''], message = None\<rparr>]
      | _ \<Rightarrow> Inl [\<lparr>path = [Key ''target''], message = None\<rparr>])"

definition z_envVar :: "nat \<Rightarrow> json \<Rightarrow> issue list + envVar" where
  \<comment> \<open>the element schema \<open>z.object({key: z.string().min(1, ...), value: z.string().min(1, ...)})\<close>
      at index \<open>i\<close>\<close>
  "z_envVar i v =
     (case v of
        JObj ps \<Rightarrow>
          (let k = z_string_min1 [Key ''envVars'', Idx i, Key ''key'']
                     ''Environment variable key is required'' (get_prop ps ''key'');
               x = z_string_min1 [Key ''envVars'', Idx i, Key ''value'']
                     ''Environment variable value is required'' (get_prop ps ''value'');
               is = issues_of k @ issues_of x
           in if is = [] then Inr \<lparr>key = projr k, val = projr x\<rparr> else Inl is)
      | _ \<Rightarrow> Inl [\<lparr>path = [Key ''envVars'', Idx i], message = None\<rparr>])"

definition z_envVars :: "json option \<Rightarrow> issue list + envVar list" where
  \<comment> \<open>\<open>z.array(...).optional().default([])\<close>\<close>
  "z_envVars v =
     (case v of
        None \<Rightarrow> Inr []
      | Some (JArr xs) \<Rightarrow>
          (let rs = map (\<lambda>(i, x). z_envVar i x) (enumerate 0 xs);
               is = concat (map issues_of rs)
           in if is = [] then Inr (map projr rs) else Inl is)
      | _ \<Rightarrow> Inl [\<lparr>path = [Key ''envVars''], message = None\<rparr>])"

definition deploymentSchema_parse :: "(string \<Rightarrow> bool) \<Rightarrow> json \<Rightarrow> issue list + validatedData" where
  \<comment> \<open>\<open>deploymentSchema.parse(body)\<close>; \<open>Inl\<close> is the \<open>ZodError\<close> it throws\<close>
  "deploymentSchema_parse is_url body =
     (case body of
        JObj ps \<Rightarrow>
          (let r1 = z_repositoryUrl is_url (get_prop ps ''repositoryUrl'');
               r2 = z_string_min1 [Key ''userName''] ''Username is required'' (get_prop ps ''userName'');
               r3 = z_string_optional [Key ''password''] (get_prop ps ''password'');
               r4 = z_string_optional [Key ''domainName''] (get_prop ps ''domainName'');
               r5 = z_string_min1 [Key ''projectName''] ''Project name is required''
                      (get_prop ps ''projectName'');
               r6 = z_branch (get_prop ps ''branch'');
               r7 = z_target (get_prop ps ''target'');
               r8 = z_envVars (get_prop ps ''envVars'');
               is = issues_of r1 @ issues_of r2 @ issues_of r3 @ issues_of r4 @ issues_of r5
                    @ issues_of r6 @ issues_of r7 @ issues_of r8
           in if is = [] then
                Inr \<lparr>v_repositoryUrl = projr r1, v_userName = projr r2, v_password = projr r3,
                     v_domainName = projr r4, v_projectName = projr r5, v_branch = projr r6,
                     v_target = projr r7, v_envVars = projr r8\<rparr>
              else Inl is)
      | _ \<Rightarrow> Inl [\<lparr>path = [], message = None\<rparr>])"

record gitHubInfo =
  org :: string
  repo :: string

definition extractGitHubInfo :: "string \<Rightarrow> string + gitHubInfo" where
  \<comment> \<open>\<open>Inl msg\<close> is \<open>throw new Error(msg)\<close>\<close>
  "extractGitHubInfo url =
     (case regex_match gitHubInfo_re url of
        None \<Rightarrow> Inl ''Invalid GitHub repository URL''
      | Some m \<Rightarrow> Inr \<lparr>org = m ! 0, repo = replace (m ! 1) ''.git'' ''''\<rparr>)"

section \<open>The route handler \<open>POST /api/deploy\<close> (server)\<close>

text \<open>
  The external platform is a collaborator: the model takes its answers as the record
  \<open>platform\<close> and returns, with the HTTP response, the list of the calls the handler issued.
\<close>

record gitSource =
  gs_type :: string
  gs_repo :: string
  gs_ref :: string
  gs_org :: string

record deployRequest =
  rq_name :: string
  rq_target :: target
  rq_gitSource :: gitSource
  rq_alias :: "string list option"

record envEntry =
  e_key :: string
  e_value :: string
  e_target :: "string list"
  e_type :: string

datatype call =
    CreateDeployment deployRequest           \<comment> \<open>\<open>fetch('https://api.vercel.com/v13/deployments...')\<close>\<close>
  | AddProjectDomain string string           \<comment> \<open>\<open>idOrName\<close>, \<open>requestBody.name\<close>\<close>
  | CreateProjectEnv string string "envEntry list"  \<comment> \<open>\<open>idOrName\<close>, \<open>upsert\<close>, \<open>requestBody\<close>\<close>

text \<open>
  The body of an accepted create-deployment call: an object with the properties the handler
  reads, the two URLs being strings or absent, and with \<open>readyState\<close>, the state the
  platform reports, which the handler does not read.
\<close>

record platformDeployment =
  p_id :: string
  p_status :: string
  p_url :: "string option"
  p_alias :: "string list option"
  p_createdAt :: int
  p_ready :: "int option"
  p_inspectorUrl :: "string option"
  p_readyState :: string

datatype fetchOutcome =
    Rejected string            \<comment> \<open>\<open>fetch\<close> or \<open>.json()\<close> throws an \<open>Error\<close> with this message\<close>
  | NotOk nat json             \<comment> \<open>\<open>!deploymentResponse.ok\<close>: the status and the parsed body\<close>
  | Ok platformDeployment

datatype thrown =
    AnError string             \<comment> \<open>an \<open>Error\<close> and its \<open>message\<close>\<close>
  | NotAnError string          \<comment> \<open>any other value \<open>v\<close>, as \<open>String(v)\<close>\<close>

record platform =
  createDeployment :: "deployRequest \<Rightarrow> fetchOutcome"
  addProjectDomain :: "string \<Rightarrow> string \<Rightarrow> thrown + string"
  createProjectEnv :: "string \<Rightarrow> envEntry list \<Rightarrow> thrown + unit"

record DeploymentResult =
  deployment_id :: string
  deployment_status :: string
  deployment_url :: "string option"
  deployment_alias :: "string list option"
  deployment_createdAt :: int
  deployment_readyAt :: "int option"
  deployment_state :: string
  deployment_inspectorUrl :: "string option"

record domainResult =
  domain_name :: string
  domain_status :: string
  domain_added :: bool
  domain_error :: "string option"

record envVarsResult =
  envVars_added :: bool
  envVars_count :: nat
  envVars_variables :: "string list option"
  envVars_error :: "string option"

datatype body =
    Created DeploymentResult "domainResult option" "envVarsResult option" string
      \<comment> \<open>\<open>{success: true, deployment, domain, envVars, message}\<close>\<close>
  | ValidationFailed string "(string \<times> string option) list"
      \<comment> \<open>\<open>{success: false, error, details}\<close>\<close>
  | Failed string string
      \<comment> \<open>\<open>{success: false, error, message}\<close>\<close>

fun success :: "body \<Rightarrow> bool" where
  "success (Created _ _ _ _) = True"
| "success (ValidationFailed _ _) = False"
| "success (Failed _ _) = False"

fun response_deployment :: "body \<Rightarrow> DeploymentResult option" where
  \<comment> \<open>\<open>result.deployment\<close>\<close>
  "response_deployment (Created d _ _ _) = Some d"
| "response_deployment _ = None"

fun response_domain :: "body \<Rightarrow> domainResult option" where
  \<comment> \<open>\<open>result.domain\<close>\<close>
  "response_domain (Created _ dr _ _) = dr"
| "response_domain _ = None"

fun response_envVars :: "body \<Rightarrow> envVarsResult option" where
  \<comment> \<open>\<open>result.envVars\<close>\<close>
  "response_envVars (Created _ _ er _) = er"
| "response_envVars _ = None"

record http =
  http_status :: nat
  http_body :: body

text \<open>
  What the outer \<open>catch\<close> can receive: the \<open>ZodError\<close> of the schema, or an object with a
  \<open>message\<close> and, when it has one, a \<open>status\<close> property.
\<close>

datatype caught = ZodError "issue list" | ErrorObject "nat option" string

fun seg_string :: "seg \<Rightarrow> string" where
  "seg_string (Key k) = k"
| "seg_string (Idx i) = decimal i"

definition catch_block :: "caught \<Rightarrow> http" where
  "catch_block error =
     (case error of
        ZodError errs \<Rightarrow>
          \<lparr>http_status = 400,
           http_body = ValidationFailed ''Validation failed''
             (map (\<lambda>err. (join ''.'' (map seg_string (path err)), message err)) errs)\<rparr>
      | ErrorObject status errorMessage \<Rightarrow>
          if status = Some 401 then
            \<lparr>http_status = 401,
             http_body = Failed ''Authentication failed''
               ''Invalid Vercel token. Check your VERCEL_TOKEN environment variable.''\<rparr>
          else if status = Some 403 then
            \<lparr>http_status = 403,
             http_body = Failed ''Access denied''
               ''Vercel token is invalid or expired. Please check your VERCEL_TOKEN environment variable.''\<rparr>
          else if status = Some 404 then
            \<lparr>http_status = 404,
             http_body = Failed ''Repository not found''
               ''Repository not found. Check the repository URL and permissions.''\<rparr>
          else if js_includes errorMessage ''forbidden'' \<or> js_includes errorMessage ''Not authorized'' then
            \<lparr>http_status = 403,
             http_body = Failed ''Vercel authentication failed''
               ''Vercel token is invalid or expired. Please check your VERCEL_TOKEN environment variable.''\<rparr>
          else if js_includes errorMessage ''projectSettings'' \<or> js_includes errorMessage ''framework'' then
            \<lparr>http_status = 400,
             http_body = Failed errorMessage
               ''Project configuration error. Please check your repository setup.''\<rparr>
          else if js_includes errorMessage ''incorrect_git_source_info'' then
            \<lparr>http_status = 400,
             http_body = Failed ''Repository not found or branch does not exist''
               ''Please check your repository URL and branch name.''\<rparr>
          else
            \<lparr>http_status = 500,
             http_body = Failed errorMessage
               ''Deployment failed. Check your Vercel token and repository permissions.''\<rparr>)"

definition truthy :: "string option \<Rightarrow> bool" where
  \<comment> \<open>a string-or-undefined value in a condition: defined and not empty\<close>
  "truthy v = (case v of None \<Rightarrow> False | Some s \<Rightarrow> s \<noteq> [])"

definition absoluteUrl :: "string option \<Rightarrow> string option" where
  \<comment> \<open>\<open>u ? (u.startsWith('http') ? u : `https://${u}`) : null\<close>, written out twice in the source\<close>
  "absoluteUrl u =
     (case u of
        None \<Rightarrow> None
      | Some s \<Rightarrow> if s = [] then None
                  else if startsWith s ''http'' then Some s else Some (''https://'' @ s))"

definition error_text :: "thrown \<Rightarrow> string" where
  \<comment> \<open>\<open>e instanceof Error ? e.message : String(e)\<close>\<close>
  "error_text e = (case e of AnError m \<Rightarrow> m | NotAnError s \<Rightarrow> s)"

definition env_entries :: "envVar list \<Rightarrow> envEntry list" where
  \<comment> \<open>the \<open>requestBody\<close> of the environment-variable call\<close>
  "env_entries vars =
     map (\<lambda>envVar. \<lparr>e_key = key envVar, e_value = val envVar,
                     e_target = [''production''], e_type = ''plain''\<rparr>) vars"

definition add_domain :: "platform \<Rightarrow> validatedData \<Rightarrow> call list \<times> domainResult option" where
  \<comment> \<open>the block "If domain name is provided, add it to the project"\<close>
  "add_domain pf validatedData =
     (if truthy (v_domainName validatedData) then
        (let d = the (v_domainName validatedData);
             c = AddProjectDomain (v_projectName validatedData) d
         in case addProjectDomain pf (v_projectName validatedData) d of
              Inr name \<Rightarrow>
                ([c], Some \<lparr>domain_name = name, domain_status = ''added'', domain_added = True,
                            domain_error = None\<rparr>)
            | Inl domainError \<Rightarrow>
                ([c], Some \<lparr>domain_name = d, domain_status = ''error'', domain_added = False,
                            domain_error = Some (error_text domainError)\<rparr>))
      else ([], None))"

definition add_envVars :: "platform \<Rightarrow> validatedData \<Rightarrow> call list \<times> envVarsResult option" where
  \<comment> \<open>the block "Add environment variables if provided"\<close>
  "add_envVars pf validatedData =
     (if length (v_envVars validatedData) > 0 then
        (let requestBody = env_entries (v_envVars validatedData);
             c = CreateProjectEnv (v_projectName validatedData) ''true'' requestBody
         in case createProjectEnv pf (v_projectName validatedData) requestBody of
              Inr _ \<Rightarrow>
                ([c], Some \<lparr>envVars_added = True,
                            envVars_count = length (v_envVars validatedData),
                            envVars_variables = Some (map key (v_envVars validatedData)),
                            envVars_error = None\<rparr>)
            | Inl envVarsError \<Rightarrow>
                ([c], Some \<lparr>envVars_added = False, envVars_count = 0, envVars_variables = None,
                            envVars_error = Some (error_text envVarsError)\<rparr>))
      else ([], None))"

datatype request =
    Malformed string     \<comment> \<open>\<open>request.json()\<close> throws an \<open>Error\<close> with this message\<close>
  | Body json

definition deploy_request :: "validatedData \<Rightarrow> gitHubInfo \<Rightarrow> deployRequest" where
  \<comment> \<open>the JSON body of the create-deployment call\<close>
  "deploy_request validatedData info =
     \<lparr>rq_name = v_projectName validatedData,
      rq_target = v_target validatedData,
      rq_gitSource = \<lparr>gs_type = ''github'', gs_repo = repo info,
                       gs_ref = v_branch validatedData, gs_org = org info\<rparr>,
      rq_alias = (if truthy (v_domainName validatedData)
                  then Some [the (v_domainName validatedData)] else None)\<rparr>"

definition deployment_of :: "platformDeployment \<Rightarrow> DeploymentResult" where
  \<comment> \<open>the \<open>deployment\<close> object of the response\<close>
  "deployment_of deployment =
     \<lparr>deployment_id = p_id deployment,
      deployment_status = p_status deployment,
      deployment_url = absoluteUrl (p_url deployment),
      deployment_alias = p_alias deployment,
      deployment_createdAt = p_createdAt deployment,
      deployment_readyAt = p_ready deployment,
      deployment_state = ''BUILDING'',
      deployment_inspectorUrl = absoluteUrl (p_inspectorUrl deployment)\<rparr>"

definition POST :: "(string \<Rightarrow> bool) \<Rightarrow> platform \<Rightarrow> request \<Rightarrow> call list \<times> http" where
  "POST is_url pf request =
     (case request of
        Malformed msg \<Rightarrow> ([], catch_block (ErrorObject None msg))
      | Body body \<Rightarrow>
     (case deploymentSchema_parse is_url body of
        Inl errs \<Rightarrow> ([], catch_block (ZodError errs))
      | Inr validatedData \<Rightarrow>
     (case extractGitHubInfo (v_repositoryUrl validatedData) of
        Inl msg \<Rightarrow> ([], catch_block (ErrorObject None msg))
      | Inr info \<Rightarrow>
     (let rq = deploy_request validatedData info
      in case createDeployment pf rq of
           Rejected msg \<Rightarrow> ([CreateDeployment rq], catch_block (ErrorObject None msg))
         | NotOk status errorData \<Rightarrow>
             ([CreateDeployment rq], catch_block (ErrorObject None (stringify errorData)))
         | Ok deployment \<Rightarrow>
             (let (calls1, domainResult) = add_domain pf validatedData;
                  (calls2, envVarsResult) = add_envVars pf validatedData;
                  response = Created (deployment_of deployment) domainResult envVarsResult
                               ''Deployment created successfully!''
              in (CreateDeployment rq # calls1 @ calls2,
                  \<lparr>http_status = 200, http_body = response\<rparr>))))))"

section \<open>The form component: state and event handlers (client)\<close>

datatype submitStatus = Idle | Success | Error   \<comment> \<open>\<open>"idle" | "success" | "error"\<close>\<close>

record FormState =
  formData :: FormData
  errors :: FormErrors
  isSubmitting :: bool
  submitStatus :: submitStatus
  statusMessage :: string
  deploymentResult :: "DeploymentResult option"

text \<open>The fields whose inputs call \<open>handleInputChange\<close>, with their keys.\<close>

datatype field =
  F_repositoryUrl | F_userName | F_password | F_domainName | F_projectName | F_branch

fun field_key :: "field \<Rightarrow> string" where
  "field_key F_repositoryUrl = ''repositoryUrl''"
| "field_key F_userName = ''userName''"
| "field_key F_password = ''password''"
| "field_key F_domainName = ''domainName''"
| "field_key F_projectName = ''projectName''"
| "field_key F_branch = ''branch''"

fun set_field :: "field \<Rightarrow> string \<Rightarrow> FormData \<Rightarrow> FormData" where
  \<comment> \<open>\<open>{ ...prev, [field]: value }\<close>\<close>
  "set_field F_repositoryUrl v prev = prev\<lparr>repositoryUrl := v\<rparr>"
| "set_field F_userName v prev = prev\<lparr>userName := v\<rparr>"
| "set_field F_password v prev = prev\<lparr>password := v\<rparr>"
| "set_field F_domainName v prev = prev\<lparr>domainName := v\<rparr>"
| "set_field F_projectName v prev = prev\<lparr>projectName := v\<rparr>"
| "set_field F_branch v prev = prev\<lparr>branch := v\<rparr>"

definition handleInputChange :: "field \<Rightarrow> string \<Rightarrow> FormState \<Rightarrow> FormState" where
  "handleInputChange field v st =
     (let st = st\<lparr>formData := set_field field v (formData st)\<rparr>
      in if truthy (map_of (errors st) (field_key field)) then
           st\<lparr>errors := AList.delete (field_key field) (errors st)\<rparr>
         else st)"

definition addEnvVar :: "FormState \<Rightarrow> FormState" where
  "addEnvVar st =
     st\<lparr>formData := (formData st)\<lparr>envVars := envVars (formData st) @ [\<lparr>key = [], val = []\<rparr>]\<rparr>\<rparr>"

definition removeEnvVar :: "nat \<Rightarrow> FormState \<Rightarrow> FormState" where
  "removeEnvVar index st =
     st\<lparr>formData := (formData st)
          \<lparr>envVars := map snd (filter (\<lambda>(i, _). i \<noteq> index) (enumerate 0 (envVars (formData st))))\<rparr>\<rparr>"

datatype envVarField = F_key | F_value

definition updateEnvVar :: "nat \<Rightarrow> envVarField \<Rightarrow> string \<Rightarrow> FormState \<Rightarrow> FormState" where
  "updateEnvVar index field v st =
     st\<lparr>formData := (formData st)
          \<lparr>envVars :=
             map (\<lambda>(i, envVar).
                    if i = index
                    then (case field of F_key \<Rightarrow> envVar\<lparr>key := v\<rparr> | F_value \<Rightarrow> envVar\<lparr>val := v\<rparr>)
                    else envVar)
                 (enumerate 0 (envVars (formData st)))\<rparr>\<rparr>"

text \<open>
  The parsed response body as \<open>handleSubmit\<close> reads it, and what the network call can do.
  The effects of \<open>handleSubmit\<close> outside the component state are the network call, the
  dialogs (with their icon and title; their text is left out) and the timer that resets the
  form. The error mapping built from the \<open>details\<close> of a response keeps the order of the
  details; a JavaScript object would list keys that look like array indices first.
\<close>

record apiResult =
  r_success :: bool
  r_deployment :: "DeploymentResult option"
  r_domain :: "domainResult option"
  r_envVars :: "envVarsResult option"
  r_details :: "(string \<times> string) list option"
  r_error :: "string option"
  r_message :: "string option"

datatype fetchResult =
    NetworkError          \<comment> \<open>\<open>fetch\<close> or \<open>response.json()\<close> throws\<close>
  | Response apiResult

datatype effect =
    Fetch FormData        \<comment> \<open>\<open>fetch('/api/deploy', {method: 'POST', body: JSON.stringify(formData)})\<close>\<close>
  | SwalFire string string  \<comment> \<open>\<open>icon\<close>, \<open>title\<close>\<close>
  | SetTimeout nat

definition classify :: "string \<Rightarrow> string \<times> string" where
  \<comment> \<open>"Determine error type and icon"\<close>
  "classify errorMessage =
     (if js_includes errorMessage ''Vercel token'' \<or> js_includes errorMessage ''invalid''
         \<or> js_includes errorMessage ''expired'' then (''warning'', ''Authentication Error'')
      else if js_includes errorMessage ''Repository not found'' then (''info'', ''Repository Error'')
      else if js_includes errorMessage ''projectSettings'' \<or> js_includes errorMessage ''framework''
        then (''info'', ''Project Configuration Error'')
      else (''error'', ''Deployment Failed''))"

definition html_throws :: "apiResult \<Rightarrow> bool" where
  \<comment> \<open>building the text of the success dialog throws a \<open>TypeError\<close>: it reads
      \<open>result.deployment.id\<close> and, when \<open>result.envVars.added\<close>, \<open>result.envVars.variables.join\<close>\<close>
  "html_throws result =
     (r_deployment result = None
      \<or> (case r_envVars result of
            None \<Rightarrow> False
          | Some ev \<Rightarrow> envVars_added ev \<and> envVars_variables ev = None))"

definition catch_submit :: "FormState \<Rightarrow> FormState \<times> effect list" where
  \<comment> \<open>the \<open>catch\<close> and \<open>finally\<close> blocks of \<open>handleSubmit\<close>\<close>
  "catch_submit st =
     (st\<lparr>submitStatus := Error, isSubmitting := False\<rparr>,
      [Fetch (formData st), SwalFire ''error'' ''Network Error''])"

definition handleSubmit :: "(FormData \<Rightarrow> fetchResult) \<Rightarrow> FormState \<Rightarrow> FormState \<times> effect list" where
  \<comment> \<open>the state when the handler has run to its end, and the effects in their order\<close>
  "handleSubmit network st =
     (let (newErrors, valid) = validateForm (formData st);
          st = st\<lparr>errors := newErrors\<rparr>
      in if \<not> valid then
           (st\<lparr>submitStatus := Error,
               statusMessage := ''Please fix the errors above and try again.''\<rparr>, [])
         else
           (let st = st\<lparr>isSubmitting := True, submitStatus := Idle, statusMessage := [],
                       deploymentResult := None\<rparr>
            in case network (formData st) of
                 NetworkError \<Rightarrow> catch_submit st
               | Response result \<Rightarrow>
                   if r_success result then
                     (let st = st\<lparr>submitStatus := Success, deploymentResult := r_deployment result\<rparr>
                      in if html_throws result then catch_submit st
                         else (st\<lparr>isSubmitting := False\<rparr>,
                               [Fetch (formData st), SwalFire ''success'' ''Deployment Created!'',
                                SetTimeout 10000]))
                   else
                     (case r_details result of
                        Some details \<Rightarrow>
                          (st\<lparr>submitStatus := Error,
                              errors := foldl (\<lambda>fieldErrors (f, m). AList.update f m fieldErrors) [] details,
                              statusMessage := [], isSubmitting := False\<rparr>,
                           [Fetch (formData st)])
                      | None \<Rightarrow>
                          (let errorMessage =
                                 (if truthy (r_error result) then the (r_error result)
                                  else if truthy (r_message result) then the (r_message result)
                                  else ''Deployment failed. Please check your credentials and try again.'');
                               (icon, title) = classify errorMessage
                           in (st\<lparr>submitStatus := Error, isSubmitting := False\<rparr>,
                               [Fetch (formData st), SwalFire icon title])))))"

section \<open>Concrete runs\<close>

text \<open>
  The inputs of the scenarios: a request for \<open>acme/widget\<close>, a stand-in for the URL test of
  the schema, and a platform that accepts the deployment, refuses the domain and stores the
  environment variables. The stand-in accepts the strings that begin with \<open>http://\<close> or
  \<open>https://\<close>; the URL test of zod accepts more (any scheme), and the two agree on the URLs
  of the runs below.
\<close>

definition is_url_stub :: "string \<Rightarrow> bool" where
  "is_url_stub s = (startsWith s ''https://'' \<or> startsWith s ''http://'')"

definition scenario_body :: json where
  "scenario_body =
     JObj [(''repositoryUrl'', JStr ''https://github.com/acme/widget''),
           (''userName'', JStr ''alice''),
           (''projectName'', JStr ''widget-prod''),
           (''branch'', JStr ''main''),
           (''target'', JStr ''production'')]"

definition scenario_deployment :: platformDeployment where
  "scenario_deployment =
     \<lparr>p_id = ''dpl_1'', p_status = ''QUEUED'', p_url = Some ''my-app.vercel.app'',
      p_alias = None, p_createdAt = 1700000000000, p_ready = None,
      p_inspectorUrl = Some ''https://vercel.com/acme/widget-prod/dpl_1'',
      p_readyState = ''QUEUED''\<rparr>"

definition scenario_platform :: platform where
  "scenario_platform =
     \<lparr>createDeployment = (\<lambda>rq. Ok scenario_deployment),
      addProjectDomain = (\<lambda>idOrName name. Inl (AnError ''Domain is already in use'')),
      createProjectEnv = (\<lambda>idOrName requestBody. Inr ())\<rparr>"

definition unauthorized_platform :: platform where
  \<comment> \<open>the platform answers the create-deployment call with status 401\<close>
  "unauthorized_platform =
     scenario_platform
       \<lparr>createDeployment := (\<lambda>rq. NotOk 401
            (JObj [(''error'', JObj [(''code'', JStr ''unauthorized''),
                                     (''message'', JStr ''Invalid token'')])]))\<rparr>"

definition http_platform :: platform where
  \<comment> \<open>the platform answers with a deployment whose URL has the scheme \<open>http\<close>\<close>
  "http_platform =
     scenario_platform
       \<lparr>createDeployment := (\<lambda>rq. Ok (scenario_deployment\<lparr>p_url := Some ''http://my-app.vercel.app''\<rparr>))\<rparr>"

definition with_prop :: "string \<Rightarrow> json \<Rightarrow> json \<Rightarrow> json" where
  \<comment> \<open>\<open>{ ...body, [k]: v }\<close>\<close>
  "with_prop k v body = (case body of JObj ps \<Rightarrow> JObj (AList.update k v ps) | _ \<Rightarrow> body)"

definition domain_body :: json where
  "domain_body = with_prop ''domainName'' (JStr ''widget.example.com'') scenario_body"

definition envVars_body :: json where
  "envVars_body =
     with_prop ''envVars''
       (JArr [JObj [(''key'', JStr ''API_KEY''), (''value'', JStr ''x'')],
              JObj [(''key'', JStr ''MODE''), (''value'', JStr ''fast'')]])
       scenario_body"

definition pages_body :: json where
  "pages_body = with_prop ''repositoryUrl'' (JStr ''https://github.com/acme/my.github.io'') scenario_body"

text \<open>
  The form as the component creates it, the form of the scenario, the same form with a user
  name of three spaces, and the state after a submission of the empty form with one empty
  environment-variable row.
\<close>

definition initial_form :: FormData where
  "initial_form =
     \<lparr>repositoryUrl = [], userName = [], password = [], domainName = [], projectName = [],
      branch = ''main'', target = production, envVars = []\<rparr>"

definition initial_state :: FormState where
  "initial_state =
     \<lparr>formData = initial_form, errors = [], isSubmitting = False, submitStatus = Idle,
      statusMessage = [], deploymentResult = None\<rparr>"

definition scenario_form :: FormData where
  "scenario_form =
     \<lparr>repositoryUrl = ''https://github.com/acme/widget'', userName = ''alice'', password = [],
      domainName = [], projectName = ''widget-prod'', branch = ''main'', target = production,
      envVars = []\<rparr>"

definition blank_name_form :: FormData where
  "blank_name_form = scenario_form\<lparr>userName := ''   ''\<rparr>"

definition flagged_state :: FormState where
  "flagged_state = fst (handleSubmit (\<lambda>body. NetworkError) (addEnvVar initial_state))"

text \<open>
  A state that the page reaches with its submit button enabled: the three required text
  fields typed in (the user name with two characters), one empty environment-variable row
  added; and the state after the submission of that form.
\<close>

definition filled_state :: FormState where
  "filled_state =
     addEnvVar
       (handleInputChange F_projectName ''widget-prod''
         (handleInputChange F_userName ''ab''
           (handleInputChange F_repositoryUrl ''https://github.com/acme/widget'' initial_state)))"

definition submitted_state :: FormState where
  "submitted_state = fst (handleSubmit (\<lambda>body. NetworkError) filled_state)"

definition minimal_body :: json where
  \<comment> \<open>a request with a user name of two characters and without branch, target and variables\<close>
  "minimal_body =
     JObj [(''repositoryUrl'', JStr ''https://github.com/acme/widget''),
           (''userName'', JStr ''ab''),
           (''projectName'', JStr ''widget-prod'')]"

fun is_CreateProjectEnv :: "call \<Rightarrow> bool" where
  "is_CreateProjectEnv (CreateProjectEnv _ _ _) = True"
| "is_CreateProjectEnv _ = False"

fun is_AddProjectDomain :: "call \<Rightarrow> bool" where
  "is_AddProjectDomain (AddProjectDomain _ _) = True"
| "is_AddProjectDomain _ = False"

section \<open>Properties as the specification words them\<close>

definition normalized :: "string option \<Rightarrow> string option \<Rightarrow> bool" where
  \<comment> \<open>\<open>normalized u r\<close>: \<open>r\<close> is the absolute form of the platform's value \<open>u\<close>: nothing when
      there is no value, the value itself when it has the scheme \<open>http\<close> or \<open>https\<close>, and the
      value behind \<open>https://\<close> when it does not begin with \<open>http\<close>\<close>
  "normalized u r =
     ((u = None \<or> u = Some [] \<longrightarrow> r = None)
      \<and> (\<forall>s. u = Some s \<and> (prefix ''http://'' s \<or> prefix ''https://'' s) \<longrightarrow> r = Some s)
      \<and> (\<forall>s. u = Some s \<and> s \<noteq> [] \<and> \<not> prefix ''http'' s \<longrightarrow> r = Some (''https://'' @ s)))"

text \<open>
  The rules of the Client Validator, stated on the form: a string is blank when trimming
  leaves nothing; the repository URL has the shape \<open>https://github.com/<owner>/<repo>\<close> with
  non-empty segments and no further segment (an ending \<open>.git\<close> belongs to \<open><repo>\<close>); a
  project name is made of letters, digits, hyphens and underscores; a domain is a bare
  host-name label: letters, digits and hyphens, with a letter or digit at both ends.
  \<open>violated f\<close> is the set of the fields of the form \<open>f\<close> whose rule fails.
  \<open>hostname_chars\<close> is the set of strings that the pattern of the form accepts for a domain:
  it asks for a letter or digit at the start only.
\<close>

definition blank :: "string \<Rightarrow> bool" where
  "blank s = (\<forall>c \<in> set s. is_ws c)"

definition between :: "char \<Rightarrow> char \<Rightarrow> char \<Rightarrow> bool" where
  "between lo hi c = ((of_char lo :: nat) \<le> of_char c \<and> (of_char c :: nat) \<le> of_char hi)"

definition letter_or_digit :: "char \<Rightarrow> bool" where
  "letter_or_digit c =
     (between CHR ''a'' CHR ''z'' c \<or> between CHR ''A'' CHR ''Z'' c \<or> between CHR ''0'' CHR ''9'' c)"

definition project_charset :: "string \<Rightarrow> bool" where
  "project_charset s = (s \<noteq> [] \<and> (\<forall>c \<in> set s. letter_or_digit c \<or> c = CHR ''-'' \<or> c = CHR ''_''))"

definition hostname_chars :: "string \<Rightarrow> bool" where
  "hostname_chars s =
     (s \<noteq> [] \<and> letter_or_digit (hd s) \<and> (\<forall>c \<in> set s. letter_or_digit c \<or> c = CHR ''-''))"

definition url_shape :: "string \<Rightarrow> bool" where
  "url_shape s =
     (\<exists>owner repo. s = ''https://github.com/'' @ owner @ ''/'' @ repo
        \<and> owner \<noteq> [] \<and> repo \<noteq> [] \<and> CHR ''/'' \<notin> set owner \<and> CHR ''/'' \<notin> set repo)"

definition bare_hostname :: "string \<Rightarrow> bool" where
  "bare_hostname s =
     (s \<noteq> [] \<and> letter_or_digit (hd s) \<and> letter_or_digit (last s)
      \<and> (\<forall>c \<in> set s. letter_or_digit c \<or> c = CHR ''-''))"

definition violated_with :: "(string \<Rightarrow> bool) \<Rightarrow> FormData \<Rightarrow> string set" where
  \<comment> \<open>the fields whose rule fails, for a given rule \<open>P\<close> of domain names\<close>
  "violated_with P f =
     {k. k = ''repositoryUrl'' \<and> \<not> url_shape (repositoryUrl f)
       \<or> k = ''userName'' \<and> (blank (userName f) \<or> length (userName f) < 3)
       \<or> k = ''password'' \<and> password f \<noteq> [] \<and> length (password f) < 6
       \<or> k = ''projectName'' \<and> \<not> project_charset (projectName f)
       \<or> k = ''branch'' \<and> blank (branch f)
       \<or> k = ''domainName'' \<and> domainName f \<noteq> [] \<and> \<not> P (domainName f)
       \<or> k = ''envVars'' \<and> (\<exists>e \<in> set (envVars f). blank (key e) \<or> blank (val e))}"

definition violated :: "FormData \<Rightarrow> string set" where
  "violated f = violated_with bare_hostname f"

text \<open>
  The field contract of a request body. \<open>field_contract\<close> is the contract of the Client
  Validator as the specification lists it for the server: the URL shape, a user name of at
  least 3 characters, a password of at least 6 characters when there is one, a project name
  in the allowed characters, a non-empty branch (or none: the default applies), a bare host
  name as domain when there is one. \<open>server_contract\<close> is the contract that
  \<open>deploymentSchema\<close> states.
\<close>

definition string_prop :: "(string \<times> json) list \<Rightarrow> string \<Rightarrow> (string \<Rightarrow> bool) \<Rightarrow> bool" where
  "string_prop ps k P = (\<exists>s. get_prop ps k = Some (JStr s) \<and> P s)"

definition optional_prop :: "(string \<times> json) list \<Rightarrow> string \<Rightarrow> (string \<Rightarrow> bool) \<Rightarrow> bool" where
  "optional_prop ps k P = (get_prop ps k = None \<or> string_prop ps k P)"

definition field_contract :: "json \<Rightarrow> bool" where
  "field_contract body =
     (\<exists>ps. body = JObj ps
        \<and> string_prop ps ''repositoryUrl'' url_shape
        \<and> string_prop ps ''userName'' (\<lambda>s. 3 \<le> length s)
        \<and> optional_prop ps ''password'' (\<lambda>s. s = [] \<or> 6 \<le> length s)
        \<and> string_prop ps ''projectName'' project_charset
        \<and> optional_prop ps ''branch'' (\<lambda>s. s \<noteq> [])
        \<and> optional_prop ps ''domainName'' (\<lambda>s. s = [] \<or> bare_hostname s))"

definition server_contract :: "(string \<Rightarrow> bool) \<Rightarrow> json \<Rightarrow> bool" where
  "server_contract is_url body =
     (\<exists>ps. body = JObj ps
        \<and> string_prop ps ''repositoryUrl'' (\<lambda>s. is_url s \<and> (\<exists>a b. s = a @ ''github.com'' @ b))
        \<and> string_prop ps ''userName'' (\<lambda>s. s \<noteq> [])
        \<and> optional_prop ps ''password'' (\<lambda>s. True)
        \<and> optional_prop ps ''domainName'' (\<lambda>s. True)
        \<and> string_prop ps ''projectName'' (\<lambda>s. s \<noteq> [])
        \<and> optional_prop ps ''branch'' (\<lambda>s. s \<noteq> [])
        \<and> optional_prop ps ''target'' (\<lambda>s. s = ''production'' \<or> s = ''preview'')
        \<and> (get_prop ps ''envVars'' = None
             \<or> (\<exists>xs. get_prop ps ''envVars'' = Some (JArr xs)
                  \<and> (\<forall>x \<in> set xs. \<exists>qs. x = JObj qs
                         \<and> string_prop qs ''key'' (\<lambda>s. s \<noteq> [])
                         \<and> string_prop qs ''value'' (\<lambda>s. s \<noteq> [])))))"

section \<open>Auxiliary notions\<close>

text \<open>\<open>ok ps b s\<close>: the pieces \<open>ps\<close> match at the position of \<open>s\<close>.\<close>

definition ok :: "piece list \<Rightarrow> bool \<Rightarrow> string \<Rightarrow> bool" where
  "ok ps b s = (run ps b s \<noteq> None)"

text \<open>\<open>groups ps\<close>: the number of capture groups of \<open>ps\<close>.\<close>

fun groups :: "piece list \<Rightarrow> nat" where
  "groups [] = 0"
| "groups (Many cap lo c # ps) = (if cap then Suc (groups ps) else groups ps)"
| "groups (p # ps) = groups ps"

section \<open>The matcher\<close>

lemma first_some_None: "first_some xs = None \<longleftrightarrow> (\<forall>x \<in> set xs. x = None)"
  by (induction xs rule: first_some.induct) auto

lemma first_some_Some: "first_some xs = Some y \<Longrightarrow> Some y \<in> set xs"
  by (induction xs rule: first_some.induct) auto

lemma ok_Nil: "ok [] b s"
  by (simp add: ok_def)

lemma ok_Bol: "ok (Bol # ps) b s \<longleftrightarrow> b \<and> ok ps b s"
  by (simp add: ok_def)

lemma ok_Eol: "ok (Eol # ps) b s \<longleftrightarrow> s = [] \<and> ok ps b s"
  by (simp add: ok_def)

lemma ok_Lit: "ok (Lit l # ps) b s \<longleftrightarrow> prefix l s \<and> ok ps (b \<and> l = []) (drop (length l) s)"
  by (simp add: ok_def)

lemma ok_OptLit:
  "ok (OptLit l # ps) b s \<longleftrightarrow>
     (prefix l s \<and> ok ps (b \<and> l = []) (drop (length l) s)) \<or> ok ps b s"
  by (auto simp: ok_def split: option.splits)

lemma ok_One: "ok (One c # ps) b s \<longleftrightarrow> (\<exists>x xs. s = x # xs \<and> in_class c x \<and> ok ps False xs)"
  by (auto simp: ok_def split: list.splits)

lemma ok_Many:
  "ok (Many cap lo c # ps) b s \<longleftrightarrow>
     (\<exists>k. lo \<le> k \<and> k \<le> length (takeWhile (in_class c) s) \<and> ok ps (b \<and> k = 0) (drop k s))"
  by (auto simp: ok_def Let_def first_some_None)

lemma regex_test_Bol: "regex_test (Bol # ps) s \<longleftrightarrow> ok ps True s"
proof -
  have "(\<exists>i \<in> {0..<Suc (length s)}. run (Bol # ps) (i = 0) (drop i s) \<noteq> None) \<longleftrightarrow> run ps True s \<noteq> None"
    by (auto intro: bexI [of _ 0])
  then show ?thesis
    by (auto simp: regex_test_def regex_match_def first_some_None ok_def simp del: run.simps upt_Suc)
qed

lemma takeWhile_all: "length (takeWhile P xs) = length xs \<longleftrightarrow> (\<forall>x \<in> set xs. P x)"
proof (induction xs)
  case Nil
  show ?case by simp
next
  case (Cons x xs)
  then show ?case by (cases "P x") auto
qed

lemma take_takeWhile: "k \<le> length (takeWhile P xs) \<Longrightarrow> x \<in> set (take k xs) \<Longrightarrow> P x"
proof (induction xs arbitrary: k)
  case Nil
  then show ?case by simp
next
  case (Cons y ys)
  show ?case
  proof (cases k)
    case 0
    with Cons.prems show ?thesis by simp
  next
    case (Suc j)
    with Cons.prems have "P y" by (cases "P y") auto
    with Cons Suc show ?thesis by auto
  qed
qed

lemma takeWhile_stops: "\<not> P y \<Longrightarrow> \<forall>x \<in> set xs. P x \<Longrightarrow> takeWhile P (xs @ y # ys) = xs"
  by (induction xs) auto

lemma run_groups: "run ps b s = Some m \<Longrightarrow> length m = groups ps"
proof (induction ps arbitrary: b s m)
  case Nil
  then show ?case by simp
next
  case (Cons p ps)
  show ?case
  proof (cases p)
    case (Many cap lo c)
    let ?n = "length (takeWhile (in_class c) s)"
    let ?g = "\<lambda>k. map_option (\<lambda>caps. if cap then take k s # caps else caps)
                    (run ps (b \<and> k = 0) (drop k s))"
    from Cons.prems Many have "first_some (map ?g (rev [lo..<Suc ?n])) = Some m"
      by (simp only: run.simps Let_def)
    then have "Some m \<in> set (map ?g (rev [lo..<Suc ?n]))"
      by (rule first_some_Some)
    then obtain k where "Some m = ?g k"
      unfolding set_map by (rule imageE)
    then have "?g k = Some m"
      by (rule sym)
    then obtain m' where "run ps (b \<and> k = 0) (drop k s) = Some m'"
      and "m = (if cap then take k s # m' else m')"
      by (auto simp only: map_option_eq_Some)
    with Cons.IH Many show ?thesis by auto
  qed (use Cons in \<open>auto split: if_splits option.splits list.splits\<close>)
qed

lemma first_some_upt:
  "a \<le> k \<Longrightarrow> k < n \<Longrightarrow> (\<And>i. a \<le> i \<Longrightarrow> i < k \<Longrightarrow> f i = None) \<Longrightarrow> f k = Some y \<Longrightarrow>
   first_some (map f [a..<n]) = Some y"
proof (induction "k - a" arbitrary: a)
  case 0
  then have "a = k" by simp
  with 0 show ?case by (simp add: upt_conv_Cons)
next
  case (Suc d)
  then have "a < k" "f a = None" by auto
  moreover from Suc have "first_some (map f [Suc a..<n]) = Some y"
    by (intro Suc.hyps) auto
  ultimately show ?case using Suc.prems by (simp add: upt_conv_Cons)
qed

lemma greedy_first:
  assumes "lo \<le> length (takeWhile (in_class c) s)"
      and "run ps (b \<and> length (takeWhile (in_class c) s) = 0) (drop (length (takeWhile (in_class c) s)) s) = Some m"
  shows "run (Many cap lo c # ps) b s
           = Some (if cap then take (length (takeWhile (in_class c) s)) s # m else m)"
  using assms by (simp add: Let_def)

section \<open>Strings and the regular expressions of the form\<close>

lemma dropWhile_rest: "(\<forall>x \<in> set (dropWhile P xs). P x) \<longleftrightarrow> (\<forall>x \<in> set xs. P x)"
  by (induction xs) auto

lemma trim_empty: "trim s = [] \<longleftrightarrow> blank s"
  by (simp add: trim_def blank_def dropWhile_rest)

lemma js_includes_iff: "js_includes s pat \<longleftrightarrow> (\<exists>a b. s = a @ pat @ b)"
proof (induction s)
  case Nil
  show ?case by auto
next
  case (Cons c cs)
  show ?case
  proof
    assume "js_includes (c # cs) pat"
    then consider "prefix pat (c # cs)" | "js_includes cs pat" by auto
    then show "\<exists>a b. c # cs = a @ pat @ b"
    proof cases
      case 1
      then obtain b where "c # cs = pat @ b" by (auto simp: prefix_def)
      then have "c # cs = [] @ pat @ b" by simp
      then show ?thesis by blast
    next
      case 2
      with Cons.IH obtain a b where "cs = a @ pat @ b" by blast
      then have "c # cs = (c # a) @ pat @ b" by simp
      then show ?thesis by blast
    qed
  next
    assume "\<exists>a b. c # cs = a @ pat @ b"
    then obtain a b where ab: "c # cs = a @ pat @ b" by blast
    show "js_includes (c # cs) pat"
    proof (cases a)
      case Nil
      with ab have "prefix pat (c # cs)" by (simp add: prefix_def)
      then show ?thesis by simp
    next
      case (Cons x a')
      with ab have "cs = a' @ pat @ b" by simp
      with Cons.IH have "js_includes cs pat" by blast
      then show ?thesis by simp
    qed
  qed
qed

lemma in_class_project:
  "in_class (Class False (alnum @ [Ch CHR ''-'', Ch CHR ''_''])) c
     \<longleftrightarrow> letter_or_digit c \<or> c = CHR ''-'' \<or> c = CHR ''_''"
  by (auto simp: in_class.simps alnum_def letter_or_digit_def between_def)

lemma in_class_alnum: "in_class (Class False alnum) c \<longleftrightarrow> letter_or_digit c"
  by (auto simp: in_class.simps alnum_def letter_or_digit_def between_def)

lemma in_class_hyphen:
  "in_class (Class False (alnum @ [Ch CHR ''-''])) c \<longleftrightarrow> letter_or_digit c \<or> c = CHR ''-''"
  by (auto simp: in_class.simps alnum_def letter_or_digit_def between_def)

lemma in_class_not_slash: "in_class not_slash c \<longleftrightarrow> c \<noteq> CHR ''/''"
  by (simp add: in_class.simps not_slash_def)

lemma projectName_re_iff: "regex_test projectName_re s \<longleftrightarrow> project_charset s"
proof -
  let ?P = "in_class (Class False (alnum @ [Ch CHR ''-'', Ch CHR ''_'']))"
  have "regex_test projectName_re s
          \<longleftrightarrow> (\<exists>k. 1 \<le> k \<and> k \<le> length (takeWhile ?P s) \<and> drop k s = [])"
    by (simp add: projectName_re_def regex_test_Bol ok_Many ok_Eol ok_Nil)
  also have "\<dots> \<longleftrightarrow> s \<noteq> [] \<and> length (takeWhile ?P s) = length s"
    using length_takeWhile_le [of ?P s] by (cases s) (auto intro: exI [of _ "length s"])
  also have "\<dots> \<longleftrightarrow> project_charset s"
    by (simp add: takeWhile_all in_class_project project_charset_def)
  finally show ?thesis .
qed

lemma domainName_re_iff: "regex_test domainName_re s \<longleftrightarrow> hostname_chars s"
proof -
  let ?A = "in_class (Class False alnum)"
  let ?H = "in_class (Class False (alnum @ [Ch CHR ''-'']))"
  have AH: "?H c" if "?A c" for c
    using that by (simp add: in_class_alnum in_class_hyphen)
  have tail: "(\<exists>k \<le> length (takeWhile ?H xs). \<exists>j \<le> length (takeWhile ?A (drop k xs)).
                 drop j (drop k xs) = []) \<longleftrightarrow> (\<forall>c \<in> set xs. ?H c)" for xs
  proof
    assume "\<exists>k \<le> length (takeWhile ?H xs). \<exists>j \<le> length (takeWhile ?A (drop k xs)).
              drop j (drop k xs) = []"
    then obtain k j where k: "k \<le> length (takeWhile ?H xs)"
      and j: "j \<le> length (takeWhile ?A (drop k xs))" and e: "drop j (drop k xs) = []"
      by blast
    from j e have "length (takeWhile ?A (drop k xs)) = length (drop k xs)"
      using length_takeWhile_le [of ?A "drop k xs"] by simp
    then have "\<forall>c \<in> set (drop k xs). ?A c"
      by (simp only: takeWhile_all)
    with AH have "\<forall>c \<in> set (drop k xs). ?H c" by blast
    moreover from k have "\<forall>c \<in> set (take k xs). ?H c"
      by (blast dest: take_takeWhile)
    moreover have "set xs = set (take k xs) \<union> set (drop k xs)"
      by (metis append_take_drop_id set_append)
    ultimately show "\<forall>c \<in> set xs. ?H c" by blast
  next
    assume "\<forall>c \<in> set xs. ?H c"
    then have "length (takeWhile ?H xs) = length xs"
      by (simp only: takeWhile_all)
    then have "length xs \<le> length (takeWhile ?H xs)"
      by simp
    then show "\<exists>k \<le> length (takeWhile ?H xs). \<exists>j \<le> length (takeWhile ?A (drop k xs)).
                 drop j (drop k xs) = []"
      by (intro exI [of _ "length xs"] exI [of _ 0]) simp
  qed
  have "regex_test domainName_re s
          \<longleftrightarrow> (\<exists>x xs. s = x # xs \<and> ?A x \<and>
                 (\<exists>k \<le> length (takeWhile ?H xs). \<exists>j \<le> length (takeWhile ?A (drop k xs)).
                    drop j (drop k xs) = []))"
    by (simp add: domainName_re_def regex_test_Bol ok_One ok_Many ok_Eol ok_Nil)
  also have "\<dots> \<longleftrightarrow> (\<exists>x xs. s = x # xs \<and> ?A x \<and> (\<forall>c \<in> set xs. ?H c))"
    by (simp only: tail)
  also have "\<dots> \<longleftrightarrow> hostname_chars s"
    by (cases s) (auto simp: hostname_chars_def in_class_alnum in_class_hyphen)
  finally show ?thesis .
qed

lemma owner_segment:
  "(\<exists>k. 1 \<le> k \<and> k \<le> length (takeWhile (in_class not_slash) r) \<and> prefix ''/'' (drop k r)
         \<and> Q (drop (length ''/'') (drop k r)))
   \<longleftrightarrow> (\<exists>owner rest. r = owner @ ''/'' @ rest \<and> owner \<noteq> [] \<and> CHR ''/'' \<notin> set owner \<and> Q rest)"
proof
  assume "\<exists>k. 1 \<le> k \<and> k \<le> length (takeWhile (in_class not_slash) r) \<and> prefix ''/'' (drop k r)
         \<and> Q (drop (length ''/'') (drop k r))"
  then obtain k where k: "1 \<le> k" "k \<le> length (takeWhile (in_class not_slash) r)"
    and p: "prefix ''/'' (drop k r)" and q: "Q (drop (length ''/'') (drop k r))"
    by blast
  from p obtain rest where rest: "drop k r = ''/'' @ rest"
    by (auto simp: prefix_def)
  have "r = take k r @ drop k r" by simp
  with rest have 1: "r = take k r @ ''/'' @ rest" by simp
  from k have 2: "take k r \<noteq> []"
    using length_takeWhile_le [of "in_class not_slash" r] by auto
  from k(2) have 3: "CHR ''/'' \<notin> set (take k r)"
    using take_takeWhile [of k "in_class not_slash" r "CHR ''/''"]
    by (auto simp: in_class_not_slash)
  from q rest have 4: "Q rest" by simp
  from 1 2 3 4 show "\<exists>owner rest. r = owner @ ''/'' @ rest \<and> owner \<noteq> [] \<and> CHR ''/'' \<notin> set owner \<and> Q rest"
    by blast
next
  assume "\<exists>owner rest. r = owner @ ''/'' @ rest \<and> owner \<noteq> [] \<and> CHR ''/'' \<notin> set owner \<and> Q rest"
  then obtain owner rest where r: "r = owner @ ''/'' @ rest" and o: "owner \<noteq> []"
    "CHR ''/'' \<notin> set owner" and q: "Q rest"
    by blast
  from o(2) have "takeWhile (in_class not_slash) (owner @ CHR ''/'' # rest) = owner"
    by (intro takeWhile_stops) (auto simp: in_class_not_slash)
  with r have "length (takeWhile (in_class not_slash) r) = length owner" by simp
  with r o q show "\<exists>k. 1 \<le> k \<and> k \<le> length (takeWhile (in_class not_slash) r) \<and> prefix ''/'' (drop k r)
         \<and> Q (drop (length ''/'') (drop k r))"
    by (intro exI [of _ "length owner"]) (cases owner; simp)
qed

lemma repo_segment:
  "(\<exists>j. 1 \<le> j \<and> j \<le> length (takeWhile (in_class not_slash) t)
         \<and> (prefix ''.git'' (drop j t) \<and> drop (length ''.git'') (drop j t) = [] \<or> drop j t = []))
   \<longleftrightarrow> t \<noteq> [] \<and> CHR ''/'' \<notin> set t"
proof
  assume "\<exists>j. 1 \<le> j \<and> j \<le> length (takeWhile (in_class not_slash) t)
         \<and> (prefix ''.git'' (drop j t) \<and> drop (length ''.git'') (drop j t) = [] \<or> drop j t = [])"
  then obtain j where j: "1 \<le> j" "j \<le> length (takeWhile (in_class not_slash) t)"
    and e: "prefix ''.git'' (drop j t) \<and> drop (length ''.git'') (drop j t) = [] \<or> drop j t = []"
    by blast
  from j have 1: "t \<noteq> []" by auto
  from j(2) have 2: "CHR ''/'' \<notin> set (take j t)"
    using take_takeWhile [of j "in_class not_slash" t "CHR ''/''"]
    by (auto simp: in_class_not_slash)
  have "drop j t = ''.git''" if "prefix ''.git'' (drop j t)" "drop (length ''.git'') (drop j t) = []"
  proof -
    from that(1) obtain zs where zs: "drop j t = ''.git'' @ zs" by (auto simp: prefix_def)
    then have "drop (length ''.git'') (drop j t) = zs" by simp
    with that(2) zs show ?thesis by simp
  qed
  with e have "drop j t = ''.git'' \<or> drop j t = []" by blast
  then have 3: "CHR ''/'' \<notin> set (drop j t)" by auto
  have "set t = set (take j t) \<union> set (drop j t)"
    by (metis append_take_drop_id set_append)
  with 2 3 have "CHR ''/'' \<notin> set t" by blast
  with 1 show "t \<noteq> [] \<and> CHR ''/'' \<notin> set t" ..
next
  assume t: "t \<noteq> [] \<and> CHR ''/'' \<notin> set t"
  then have "length (takeWhile (in_class not_slash) t) = length t"
    by (auto simp: takeWhile_all in_class_not_slash)
  with t show "\<exists>j. 1 \<le> j \<and> j \<le> length (takeWhile (in_class not_slash) t)
         \<and> (prefix ''.git'' (drop j t) \<and> drop (length ''.git'') (drop j t) = [] \<or> drop j t = [])"
    by (intro exI [of _ "length t"]) (cases t; simp)
qed

lemma repositoryUrl_re_iff: "regex_test repositoryUrl_re s \<longleftrightarrow> url_shape s"
proof -
  let ?L = "''https://github.com/''"
  let ?r = "drop (length ?L) s"
  have "regex_test repositoryUrl_re s
     \<longleftrightarrow> prefix ?L s \<and>
         (\<exists>k. 1 \<le> k \<and> k \<le> length (takeWhile (in_class not_slash) ?r) \<and> prefix ''/'' (drop k ?r)
            \<and> (\<exists>j. 1 \<le> j
                 \<and> j \<le> length (takeWhile (in_class not_slash) (drop (length ''/'') (drop k ?r)))
                 \<and> (prefix ''.git'' (drop j (drop (length ''/'') (drop k ?r)))
                      \<and> drop (length ''.git'') (drop j (drop (length ''/'') (drop k ?r))) = []
                    \<or> drop j (drop (length ''/'') (drop k ?r)) = [])))"
    by (simp only: repositoryUrl_re_def regex_test_Bol ok_Lit ok_Many ok_OptLit ok_Eol ok_Nil simp_thms)
  also have "\<dots> \<longleftrightarrow> prefix ?L s \<and>
         (\<exists>owner rest. ?r = owner @ ''/'' @ rest \<and> owner \<noteq> [] \<and> CHR ''/'' \<notin> set owner
            \<and> rest \<noteq> [] \<and> CHR ''/'' \<notin> set rest)"
    by (simp only: repo_segment
          owner_segment [where Q = "\<lambda>t. t \<noteq> [] \<and> CHR ''/'' \<notin> set t"])
  also have "\<dots> \<longleftrightarrow> url_shape s"
  proof
    assume a: "prefix ?L s \<and>
         (\<exists>owner rest. ?r = owner @ ''/'' @ rest \<and> owner \<noteq> [] \<and> CHR ''/'' \<notin> set owner
            \<and> rest \<noteq> [] \<and> CHR ''/'' \<notin> set rest)"
    then obtain t where "s = ?L @ t" by (auto simp: prefix_def)
    with a show "url_shape s" unfolding url_shape_def by auto
  next
    assume "url_shape s"
    then obtain owner rp where "s = ?L @ owner @ ''/'' @ rp" "owner \<noteq> []" "rp \<noteq> []"
      "CHR ''/'' \<notin> set owner" "CHR ''/'' \<notin> set rp"
      unfolding url_shape_def by blast
    then show "prefix ?L s \<and>
         (\<exists>owner rest. ?r = owner @ ''/'' @ rest \<and> owner \<noteq> [] \<and> CHR ''/'' \<notin> set owner
            \<and> rest \<noteq> [] \<and> CHR ''/'' \<notin> set rest)"
      by auto
  qed
  finally show ?thesis .
qed

lemma url_shape_widget: "url_shape ''https://github.com/acme/widget''"
  unfolding url_shape_def by (intro exI [of _ "''acme''"] exI [of _ "''widget''"]) simp

lemma project_charset_widget: "project_charset ''widget-prod''"
  by (simp add: project_charset_def letter_or_digit_def between_def)

lemma widget_on_github: "\<exists>a b. ''https://github.com/acme/widget'' = a @ ''github.com'' @ b"
proof -
  have "js_includes ''https://github.com/acme/widget'' ''github.com''" by code_simp
  then show ?thesis by (simp only: js_includes_iff)
qed

section \<open>The Client Validator reports the violated rules\<close>

lemma ws_not_allowed: "is_ws c \<Longrightarrow> \<not> (letter_or_digit c \<or> c = CHR ''-'' \<or> c = CHR ''_'')"
  by (auto simp: is_ws_def letter_or_digit_def between_def)

lemma url_shape_required: "url_shape s \<Longrightarrow> \<not> blank s \<and> js_includes s ''github.com''"
proof -
  assume "url_shape s"
  then obtain t where s: "s = ''https://github.com/'' @ t"
    unfolding url_shape_def by blast
  then have "s = ''https://'' @ ''github.com'' @ (''/'' @ t)" by simp
  then have "js_includes s ''github.com''"
    unfolding js_includes_iff by blast
  moreover have "\<not> is_ws CHR ''h''" by (simp add: is_ws_def)
  with s have "\<not> blank s" by (auto simp: blank_def)
  ultimately show ?thesis by blast
qed

lemma project_charset_required: "project_charset s \<Longrightarrow> \<not> blank s"
proof -
  assume a: "project_charset s"
  then obtain c cs where "s = c # cs" by (cases s) (auto simp: project_charset_def)
  with a show ?thesis
    using ws_not_allowed [of c] by (auto simp: project_charset_def blank_def)
qed

lemma repositoryUrl_rule:
  "(trim s = [] \<or> \<not> js_includes s ''github.com'' \<or> \<not> regex_test repositoryUrl_re s)
     \<longleftrightarrow> \<not> url_shape s"
  using url_shape_required [of s] by (auto simp: trim_empty repositoryUrl_re_iff)

lemma projectName_rule:
  "(trim s = [] \<or> \<not> regex_test projectName_re s) \<longleftrightarrow> \<not> project_charset s"
  using project_charset_required [of s] by (auto simp: trim_empty projectName_re_iff)

lemma keys_update: "fst ` set (AList.update k v al) = insert k (fst ` set al)"
  by (simp add: dom_update)

lemma validateForm_keys:
  "fst ` set (fst (validateForm f)) = violated_with hostname_chars f
   \<and> distinct (map fst (fst (validateForm f)))"
proof -
  define e1 where "e1 = check_repositoryUrl f []"
  define e2 where "e2 = check_userName f e1"
  define e3 where "e3 = check_password f e2"
  define e4 where "e4 = check_projectName f e3"
  define e5 where "e5 = check_branch f e4"
  define e6 where "e6 = check_domainName f e5"
  define e7 where "e7 = check_envVars f e6"
  have v: "fst (validateForm f) = e7"
    unfolding validateForm_def Let_def e7_def e6_def e5_def e4_def e3_def e2_def e1_def
    by (simp only: fst_conv)
  have k1: "fst ` set e1 = {k. k = ''repositoryUrl'' \<and> \<not> url_shape (repositoryUrl f)}"
    using repositoryUrl_rule [of "repositoryUrl f"]
    by (auto simp: e1_def check_repositoryUrl_def)
  have k2: "fst ` set e2 = fst ` set e1
              \<union> {k. k = ''userName'' \<and> (blank (userName f) \<or> length (userName f) < 3)}"
    by (auto simp: e2_def check_userName_def keys_update trim_empty)
  have k3: "fst ` set e3 = fst ` set e2
              \<union> {k. k = ''password'' \<and> password f \<noteq> [] \<and> length (password f) < 6}"
    by (auto simp: e3_def check_password_def keys_update)
  have k4: "fst ` set e4 = fst ` set e3
              \<union> {k. k = ''projectName'' \<and> \<not> project_charset (projectName f)}"
    using projectName_rule [of "projectName f"]
    by (auto simp: e4_def check_projectName_def keys_update)
  have k5: "fst ` set e5 = fst ` set e4 \<union> {k. k = ''branch'' \<and> blank (branch f)}"
    by (auto simp: e5_def check_branch_def keys_update trim_empty)
  have k6: "fst ` set e6 = fst ` set e5
              \<union> {k. k = ''domainName'' \<and> domainName f \<noteq> [] \<and> \<not> hostname_chars (domainName f)}"
    by (auto simp: e6_def check_domainName_def keys_update domainName_re_iff)
  have k7: "fst ` set e7 = fst ` set e6
              \<union> {k. k = ''envVars'' \<and> (\<exists>e \<in> set (envVars f). blank (key e) \<or> blank (val e))}"
    by (auto simp: e7_def check_envVars_def keys_update trim_empty filter_empty_conv)
  have keys: "fst ` set e7 = violated_with hostname_chars f"
    unfolding k7 k6 k5 k4 k3 k2 k1 violated_with_def
    by (rule set_eqI) (simp only: Un_iff mem_Collect_eq disj_assoc)
  have "distinct (map fst e1)" by (simp add: e1_def check_repositoryUrl_def)
  then have "distinct (map fst e2)" by (simp add: e2_def check_userName_def distinct_update)
  then have "distinct (map fst e3)" by (simp add: e3_def check_password_def distinct_update)
  then have "distinct (map fst e4)" by (simp add: e4_def check_projectName_def distinct_update)
  then have "distinct (map fst e5)" by (simp add: e5_def check_branch_def distinct_update)
  then have "distinct (map fst e6)" by (simp add: e6_def check_domainName_def distinct_update)
  then have "distinct (map fst e7)" by (simp add: e7_def check_envVars_def distinct_update)
  with keys v show ?thesis by simp
qed

lemma validateForm_flag: "snd (validateForm f) = (fst (validateForm f) = [])"
  unfolding validateForm_def Let_def by (simp only: fst_conv snd_conv length_0_conv)

lemma hostname_without_hyphen_end:
  assumes "d = [] \<or> last d \<noteq> CHR ''-''"
  shows "hostname_chars d \<longleftrightarrow> bare_hostname d"
proof (cases "d = []")
  case True
  then show ?thesis by (simp add: hostname_chars_def bare_hostname_def)
next
  case False
  with assms have "last d \<in> set d" and "last d \<noteq> CHR ''-''" by simp_all
  then show ?thesis
    unfolding hostname_chars_def bare_hostname_def by blast
qed

lemma violated_without_hyphen_end:
  "domainName f = [] \<or> last (domainName f) \<noteq> CHR ''-'' \<Longrightarrow>
   violated_with hostname_chars f = violated f"
  by (simp add: violated_def violated_with_def hostname_without_hyphen_end)

text \<open>
  The pattern of the form accepts a domain that ends in a hyphen, and it refuses the domain
  that its own message gives as an example.
\<close>

lemma domain_pattern_examples:
  "regex_test domainName_re ''a-'' \<and> \<not> bare_hostname ''a-''
   \<and> \<not> regex_test domainName_re ''mydomain.com''
   \<and> fst (validateForm (scenario_form\<lparr>domainName := ''mydomain.com''\<rparr>))
       = [(''domainName'', ''Invalid domain format (e.g., mydomain.com)'')]"
proof -
  have "\<not> bare_hostname ''a-''"
    by (simp add: bare_hostname_def letter_or_digit_def between_def)
  moreover have "regex_test domainName_re ''a-''"
    by code_simp
  moreover have "\<not> regex_test domainName_re ''mydomain.com''"
    by code_simp
  moreover have "fst (validateForm (scenario_form\<lparr>domainName := ''mydomain.com''\<rparr>))
       = [(''domainName'', ''Invalid domain format (e.g., mydomain.com)'')]"
    by code_simp
  ultimately show ?thesis by blast
qed

lemma distinct_singleton: "distinct xs \<Longrightarrow> set xs = {k} \<Longrightarrow> xs = [k]"
proof (cases xs)
  case Nil
  assume "set xs = {k}"
  with Nil show ?thesis by simp
next
  case (Cons y ys)
  assume d: "distinct xs" and s: "set xs = {k}"
  from s Cons have y: "y = k" by auto
  from s Cons have "set ys \<subseteq> {k}" by auto
  with d Cons y have "ys = []" by (cases ys) auto
  with Cons y show ?thesis by simp
qed

section \<open>The event handlers and the error mapping\<close>

lemma handleInputChange_errors:
  "truthy (map_of (errors st) (field_key x)) \<Longrightarrow>
     errors (handleInputChange x v st) = AList.delete (field_key x) (errors st)
   \<and> map_of (errors (handleInputChange x v st)) = (map_of (errors st)) (field_key x := None)"
  by (simp add: handleInputChange_def delete_conv')

lemma updateEnvVar_errors: "errors (updateEnvVar i x v st) = errors st"
  by (simp add: updateEnvVar_def)

section \<open>Decomposing the repository URL\<close>

text \<open>
  A match of \<open>gitHubInfo_re\<close> has two groups, so \<open>extractGitHubInfo\<close> reads them within
  range; and on a URL of the shape \<open>https://github.com/<owner>/<repo>\<close> it returns the owner
  and the repository segment with its first \<open>.git\<close> removed.
\<close>

lemma gitHubInfo_captures: "regex_match gitHubInfo_re s = Some m \<Longrightarrow> length m = 2"
proof -
  assume "regex_match gitHubInfo_re s = Some m"
  then obtain i where "run gitHubInfo_re (i = 0) (drop i s) = Some m"
    unfolding regex_match_def by (auto dest!: first_some_Some simp del: upt_Suc)
  from run_groups [OF this] show ?thesis
    by (simp add: gitHubInfo_re_def)
qed

lemma match_owner_repo:
  assumes "owner \<noteq> []" and "rp \<noteq> []" and "CHR ''/'' \<notin> set owner" and "CHR ''/'' \<notin> set rp"
  shows "run gitHubInfo_re b (''github.com/'' @ owner @ ''/'' @ rp) = Some [owner, rp]"
proof -
  have tw1: "takeWhile (in_class not_slash) (owner @ CHR ''/'' # rp) = owner"
    using assms(3) by (intro takeWhile_stops) (auto simp: in_class_not_slash)
  have tw2: "takeWhile (in_class not_slash) rp = rp"
    using assms(4) by (auto simp: in_class_not_slash)
  have last: "run [Many True 1 not_slash, OptLit ''.git'', Eol] False rp = Some [rp]"
    using assms(2) by (subst greedy_first [where m = "[]"]) (simp_all add: tw2 Suc_le_eq)
  have "run [Many True 1 not_slash, Lit ''/'', Many True 1 not_slash, OptLit ''.git'', Eol] False
          (owner @ CHR ''/'' # rp) = Some [owner, rp]"
    using assms(1) last by (subst greedy_first [where m = "[rp]"]) (simp_all add: tw1 Suc_le_eq)
  then show ?thesis
    by (simp add: gitHubInfo_re_def)
qed

lemma no_match_before:
  assumes "i < length p" and "CHR ''g'' \<notin> set p"
  shows "run gitHubInfo_re b (drop i (p @ t)) = None"
proof -
  from assms(1) have "p ! i \<in> set p"
    by (rule nth_mem)
  with assms(2) have c: "p ! i \<noteq> CHR ''g''"
    by metis
  from assms(1) have "drop i (p @ t) = p ! i # (drop (Suc i) p @ t)"
    by (simp add: Cons_nth_drop_Suc)
  with c show ?thesis
    by (simp add: gitHubInfo_re_def)
qed

lemma extractGitHubInfo_shape:
  assumes "owner \<noteq> []" and "rp \<noteq> []" and "CHR ''/'' \<notin> set owner" and "CHR ''/'' \<notin> set rp"
  shows "extractGitHubInfo (''https://github.com/'' @ owner @ ''/'' @ rp)
           = Inr \<lparr>org = owner, repo = replace rp ''.git'' ''''\<rparr>"
proof -
  let ?t = "''github.com/'' @ owner @ ''/'' @ rp"
  let ?s = "''https://'' @ ?t"
  let ?f = "\<lambda>i. run gitHubInfo_re (i = 0) (drop i ?s)"
  have none: "?f i = None" if "i < 8" for i
    using that by (intro no_match_before) simp_all
  have "?f 8 = Some [owner, rp]"
    using match_owner_repo [OF assms, of False] by simp
  with none have "first_some (map ?f [0..<Suc (length ?s)]) = Some [owner, rp]"
    by (intro first_some_upt [where k = 8]) simp_all
  then have "regex_match gitHubInfo_re ?s = Some [owner, rp]"
    unfolding regex_match_def .
  then show ?thesis
    by (simp add: extractGitHubInfo_def)
qed

section \<open>The request schema\<close>

lemma issues_of_if: "issues_of (if is = [] then Inr x else Inl is) = is"
  by (simp add: issues_of_def)

lemma z_string_min1_ok:
  "issues_of (z_string_min1 p msg v) = [] \<longleftrightarrow> (\<exists>s. v = Some (JStr s) \<and> s \<noteq> [])"
  by (auto simp: z_string_min1_def issues_of_def split: option.splits json.splits)

lemma z_string_optional_ok:
  "issues_of (z_string_optional p v) = [] \<longleftrightarrow> v = None \<or> (\<exists>s. v = Some (JStr s))"
  by (auto simp: z_string_optional_def issues_of_def split: option.splits json.splits)

lemma z_repositoryUrl_ok:
  "issues_of (z_repositoryUrl is_url v) = []
     \<longleftrightarrow> (\<exists>s. v = Some (JStr s) \<and> is_url s \<and> (\<exists>a b. s = a @ ''github.com'' @ b))"
  by (auto simp: z_repositoryUrl_def issues_of_def Let_def js_includes_iff
           split: option.splits json.splits)

lemma z_branch_ok:
  "issues_of (z_branch v) = [] \<longleftrightarrow> v = None \<or> (\<exists>s. v = Some (JStr s) \<and> s \<noteq> [])"
  using z_string_min1_ok [of "[Key ''branch'']" "''Branch is required''" v]
  by (cases v) (auto simp: z_branch_def issues_of_def)

lemma z_target_ok:
  "issues_of (z_target v) = []
     \<longleftrightarrow> v = None \<or> (\<exists>s. v = Some (JStr s) \<and> (s = ''production'' \<or> s = ''preview''))"
  by (auto simp: z_target_def issues_of_def split: option.splits json.splits)

lemma z_envVar_ok:
  "issues_of (z_envVar i x) = []
     \<longleftrightarrow> (\<exists>qs. x = JObj qs \<and> string_prop qs ''key'' (\<lambda>s. s \<noteq> [])
                          \<and> string_prop qs ''value'' (\<lambda>s. s \<noteq> []))"
proof (cases x)
  case (JObj qs)
  have "issues_of (z_envVar i (JObj qs))
          = issues_of (z_string_min1 [Key ''envVars'', Idx i, Key ''key'']
                         ''Environment variable key is required'' (get_prop qs ''key''))
          @ issues_of (z_string_min1 [Key ''envVars'', Idx i, Key ''value'']
                         ''Environment variable value is required'' (get_prop qs ''value''))"
    unfolding z_envVar_def Let_def by (simp only: json.case issues_of_if)
  with JObj show ?thesis
    by (simp add: z_string_min1_ok string_prop_def)
qed (simp_all add: z_envVar_def issues_of_def)

lemma z_envVars_ok:
  "issues_of (z_envVars v) = []
     \<longleftrightarrow> v = None
       \<or> (\<exists>xs. v = Some (JArr xs)
            \<and> (\<forall>x \<in> set xs. \<exists>qs. x = JObj qs \<and> string_prop qs ''key'' (\<lambda>s. s \<noteq> [])
                                              \<and> string_prop qs ''value'' (\<lambda>s. s \<noteq> [])))"
proof -
  have arr: "concat (map issues_of (map (\<lambda>(i, x). z_envVar i x) (enumerate 0 xs))) = []
          \<longleftrightarrow> (\<forall>x \<in> set xs. \<exists>qs. x = JObj qs \<and> string_prop qs ''key'' (\<lambda>s. s \<noteq> [])
                                              \<and> string_prop qs ''value'' (\<lambda>s. s \<noteq> []))" for xs
  proof -
    have "concat (map issues_of (map (\<lambda>(i, x). z_envVar i x) (enumerate 0 xs))) = []
          \<longleftrightarrow> (\<forall>p \<in> set (enumerate 0 xs). issues_of (z_envVar (fst p) (snd p)) = [])"
      by (auto simp: split_beta)
    also have "\<dots> \<longleftrightarrow> (\<forall>x \<in> snd ` set (enumerate 0 xs). \<exists>qs. x = JObj qs
                            \<and> string_prop qs ''key'' (\<lambda>s. s \<noteq> [])
                            \<and> string_prop qs ''value'' (\<lambda>s. s \<noteq> []))"
      by (simp only: z_envVar_ok ball_simps)
    also have "snd ` set (enumerate 0 xs) = set xs"
      by (metis list.set_map map_snd_enumerate)
    finally show ?thesis .
  qed
  show ?thesis
  proof (cases v)
    case None
    then show ?thesis by (simp add: z_envVars_def issues_of_def)
  next
    case (Some j)
    show ?thesis
    proof (cases j)
      case (JArr xs)
      have "issues_of (z_envVars (Some (JArr xs)))
              = concat (map issues_of (map (\<lambda>(i, x). z_envVar i x) (enumerate 0 xs)))"
        unfolding z_envVars_def Let_def by (simp only: option.case json.case issues_of_if)
      with Some JArr show ?thesis
        by (simp only: arr) simp
    qed (simp_all add: Some z_envVars_def issues_of_def)
  qed
qed

lemma get_prop_cases:
  "string_prop ps k P \<longleftrightarrow> (\<exists>s. get_prop ps k = Some (JStr s) \<and> P s)"
  "optional_prop ps k P \<longleftrightarrow> get_prop ps k = None \<or> (\<exists>s. get_prop ps k = Some (JStr s) \<and> P s)"
  by (simp_all add: string_prop_def optional_prop_def)

lemma parse_accepts: "(\<exists>v. deploymentSchema_parse is_url body = Inr v) \<longleftrightarrow> server_contract is_url body"
proof (cases body)
  case (JObj ps)
  let ?is = "issues_of (z_repositoryUrl is_url (get_prop ps ''repositoryUrl''))
      @ issues_of (z_string_min1 [Key ''userName''] ''Username is required'' (get_prop ps ''userName''))
      @ issues_of (z_string_optional [Key ''password''] (get_prop ps ''password''))
      @ issues_of (z_string_optional [Key ''domainName''] (get_prop ps ''domainName''))
      @ issues_of (z_string_min1 [Key ''projectName''] ''Project name is required''
                     (get_prop ps ''projectName''))
      @ issues_of (z_branch (get_prop ps ''branch''))
      @ issues_of (z_target (get_prop ps ''target''))
      @ issues_of (z_envVars (get_prop ps ''envVars''))"
  have "issues_of (deploymentSchema_parse is_url (JObj ps)) = ?is"
    unfolding deploymentSchema_parse_def Let_def by (simp only: json.case issues_of_if)
  moreover have "(\<exists>v. r = Inr v) \<longleftrightarrow> issues_of r = []"
    if "r = deploymentSchema_parse is_url (JObj ps)" for r
    unfolding that deploymentSchema_parse_def Let_def
    by (simp only: json.case) (simp add: issues_of_def)
  ultimately have "(\<exists>v. deploymentSchema_parse is_url (JObj ps) = Inr v) \<longleftrightarrow> ?is = []"
    by simp
  also have "\<dots> \<longleftrightarrow> server_contract is_url (JObj ps)"
    by (simp add: server_contract_def get_prop_cases z_repositoryUrl_ok z_string_min1_ok
                  z_string_optional_ok z_branch_ok z_target_ok z_envVars_ok)
  finally show ?thesis using JObj by simp
qed (simp_all add: deploymentSchema_parse_def server_contract_def)

lemma parse_defaults:
  assumes "deploymentSchema_parse is_url (JObj ps) = Inr v"
  shows "(get_prop ps ''branch'' = None \<longrightarrow> v_branch v = ''main'')
       \<and> (get_prop ps ''target'' = None \<longrightarrow> v_target v = production)
       \<and> (get_prop ps ''envVars'' = None \<longrightarrow> v_envVars v = [])"
  using assms
  by (auto simp: deploymentSchema_parse_def Let_def z_branch_def z_target_def z_envVars_def
           split: if_splits)

lemma minimal_body_accepted:
  "is_url ''https://github.com/acme/widget'' \<Longrightarrow>
   deploymentSchema_parse is_url minimal_body
     = Inr \<lparr>v_repositoryUrl = ''https://github.com/acme/widget'', v_userName = ''ab'',
            v_password = None, v_domainName = None, v_projectName = ''widget-prod'',
            v_branch = ''main'', v_target = production, v_envVars = []\<rparr>"
  by (simp add: minimal_body_def deploymentSchema_parse_def get_prop_def Let_def
        z_repositoryUrl_def z_string_min1_def z_string_optional_def z_branch_def z_target_def
        z_envVars_def issues_of_def)

lemma minimal_body_contract:
  assumes "is_url ''https://github.com/acme/widget''"
  shows "server_contract is_url minimal_body"
proof -
  let ?ps = "[(''repositoryUrl'', JStr ''https://github.com/acme/widget''),
              (''userName'', JStr ''ab''), (''projectName'', JStr ''widget-prod'')]"
  have 1: "string_prop ?ps ''repositoryUrl'' (\<lambda>s. is_url s \<and> (\<exists>a b. s = a @ ''github.com'' @ b))"
    using assms widget_on_github by (simp add: string_prop_def get_prop_def)
  have 2: "string_prop ?ps ''userName'' (\<lambda>s. s \<noteq> [])" "string_prop ?ps ''projectName'' (\<lambda>s. s \<noteq> [])"
    by (simp_all add: string_prop_def get_prop_def)
  have 3: "optional_prop ?ps ''password'' P" "optional_prop ?ps ''domainName'' P"
    "optional_prop ?ps ''branch'' P" "optional_prop ?ps ''target'' P"
    "get_prop ?ps ''envVars'' = None" for P
    by (simp_all add: optional_prop_def get_prop_def)
  from 1 2 3 show ?thesis
    unfolding server_contract_def minimal_body_def by blast
qed

lemma scenario_body_contract: "field_contract scenario_body"
  unfolding field_contract_def scenario_body_def string_prop_def optional_prop_def get_prop_def
  using url_shape_widget project_charset_widget by simp

lemma minimal_body_short_name: "\<not> field_contract minimal_body"
  by (simp add: field_contract_def minimal_body_def string_prop_def get_prop_def)

lemma scenario_body_rejected:
  "\<not> is_url ''https://github.com/acme/widget'' \<Longrightarrow>
   \<not> server_contract is_url scenario_body"
  by (simp add: server_contract_def scenario_body_def string_prop_def get_prop_def)

section \<open>The route handler\<close>

lemma catch_block_not_Created: "http_body (catch_block e) \<noteq> Created d dr er m"
  by (simp add: catch_block_def split: caught.splits)

lemma POST_Created:
  assumes "POST is_url pf rq = (calls, r)" and "http_body r = Created d dr er m"
  shows "\<exists>body v info p.
           rq = Body body \<and> deploymentSchema_parse is_url body = Inr v
         \<and> extractGitHubInfo (v_repositoryUrl v) = Inr info
         \<and> createDeployment pf (deploy_request v info) = Ok p
         \<and> calls = CreateDeployment (deploy_request v info)
                      # fst (add_domain pf v) @ fst (add_envVars pf v)
         \<and> r = \<lparr>http_status = 200,
                 http_body = Created (deployment_of p) (snd (add_domain pf v))
                               (snd (add_envVars pf v)) ''Deployment created successfully!''\<rparr>"
  using assms unfolding POST_def
  by (auto simp: Let_def catch_block_not_Created
           split: request.splits sum.splits fetchOutcome.splits prod.splits)

lemma add_domain_calls:
  "fst (add_domain pf v) =
     (if truthy (v_domainName v)
      then [AddProjectDomain (v_projectName v) (the (v_domainName v))] else [])"
  by (simp add: add_domain_def Let_def split: sum.splits)

lemma add_envVars_calls:
  "fst (add_envVars pf v) =
     (if v_envVars v \<noteq> []
      then [CreateProjectEnv (v_projectName v) ''true'' (env_entries (v_envVars v))] else [])"
  by (simp add: add_envVars_def Let_def split: sum.splits)

lemma no_CreateDeployment_after:
  "CreateDeployment c \<notin> set (fst (add_domain pf v))"
  "CreateDeployment c \<notin> set (fst (add_envVars pf v))"
  by (simp_all add: add_domain_calls add_envVars_calls)

text \<open>A run in which the create-deployment call was issued and accepted.\<close>

lemma POST_run:
  assumes "POST is_url pf rq = (calls, r)"
      and "CreateDeployment c \<in> set calls" and "createDeployment pf c = Ok p"
  shows "\<exists>body v info.
           rq = Body body \<and> deploymentSchema_parse is_url body = Inr v
         \<and> extractGitHubInfo (v_repositoryUrl v) = Inr info
         \<and> c = deploy_request v info
         \<and> calls = CreateDeployment c # fst (add_domain pf v) @ fst (add_envVars pf v)
         \<and> r = \<lparr>http_status = 200,
                 http_body = Created (deployment_of p) (snd (add_domain pf v))
                               (snd (add_envVars pf v)) ''Deployment created successfully!''\<rparr>"
  using assms unfolding POST_def
  by (auto simp: Let_def split_beta no_CreateDeployment_after
           split: request.splits sum.splits fetchOutcome.splits)

text \<open>
  A create-deployment call that the platform refuses: the thrown error carries the text of
  the body and no status, the handler issues no further call, and its answer is never 401
  or 404.
\<close>

lemma POST_rejected:
  assumes "deploymentSchema_parse is_url body = Inr v"
      and "extractGitHubInfo (v_repositoryUrl v) = Inr info"
      and "createDeployment pf (deploy_request v info) = NotOk status errorData"
  shows "POST is_url pf (Body body)
           = ([CreateDeployment (deploy_request v info)],
              catch_block (ErrorObject None (stringify errorData)))"
  using assms by (simp add: POST_def Let_def)

lemma catch_block_without_status:
  "http_status (catch_block (ErrorObject None m)) \<in> {400, 403, 500}
   \<and> (http_status (catch_block (ErrorObject None m)) = 403
        \<longleftrightarrow> js_includes m ''forbidden'' \<or> js_includes m ''Not authorized'')"
  by (simp add: catch_block_def)

lemma POST_status: "http_status (snd (POST is_url pf rq)) \<in> {200, 400, 403, 500}"
proof -
  have z: "http_status (catch_block (ZodError errs)) = 400" for errs
    by (simp add: catch_block_def)
  have e: "http_status (catch_block (ErrorObject None m)) = 400
         \<or> http_status (catch_block (ErrorObject None m)) = 403
         \<or> http_status (catch_block (ErrorObject None m)) = 500" for m
    using catch_block_without_status [of m] by auto
  show ?thesis
    unfolding POST_def using e
    by (auto simp: Let_def split_beta z split: request.splits sum.splits fetchOutcome.splits)
qed

lemma absoluteUrl_normalized: "normalized u (absoluteUrl u)"
proof -
  have "prefix ''http'' s" if "prefix ''http://'' s \<or> prefix ''https://'' s" for s
    using that by (auto simp: prefix_def)
  then show ?thesis
    by (auto simp: normalized_def absoluteUrl_def startsWith_def)
qed

section \<open>Claims\<close>

text \<open>
  C1, as the schema has it. The Request Validator accepts a body exactly when the body is an
  object in which the repository URL is a string that passes the URL test and contains
  \<open>github.com\<close>, the user name and the project name are non-empty strings, the password and
  the domain name are strings or absent, the branch is a non-empty string or absent, the
  target is \<open>"production"\<close>, \<open>"preview"\<close> or absent, and the environment variables are absent
  or an array of objects with non-empty string \<open>key\<close> and \<open>value\<close>. An absent branch
  becomes \<open>"main"\<close>, an absent target \<open>"production"\<close>, an absent list the empty list.
\<close>

theorem deploymentSchema_contract:
  "((\<exists>v. deploymentSchema_parse is_url body = Inr v) \<longleftrightarrow> server_contract is_url body)
   \<and> (\<forall>ps v. body = JObj ps \<and> deploymentSchema_parse is_url body = Inr v \<longrightarrow>
         (get_prop ps ''branch'' = None \<longrightarrow> v_branch v = ''main'')
       \<and> (get_prop ps ''target'' = None \<longrightarrow> v_target v = production)
       \<and> (get_prop ps ''envVars'' = None \<longrightarrow> v_envVars v = []))"
  using parse_accepts [of is_url body] parse_defaults [of is_url] by blast

theorem deploymentSchema_contract_witness:
  "server_contract is_url_stub minimal_body
   \<and> get_prop [(''repositoryUrl'', JStr ''https://github.com/acme/widget''),
                (''userName'', JStr ''ab''), (''projectName'', JStr ''widget-prod'')] ''branch'' = None
   \<and> (\<exists>v. deploymentSchema_parse is_url_stub minimal_body = Inr v
          \<and> v_userName v = ''ab'' \<and> v_branch v = ''main'' \<and> v_target v = production
          \<and> v_envVars v = [])"
proof -
  let ?ps = "[(''repositoryUrl'', JStr ''https://github.com/acme/widget''),
                (''userName'', JStr ''ab''), (''projectName'', JStr ''widget-prod'')]"
  have u: "is_url_stub ''https://github.com/acme/widget''"
    by (simp add: is_url_stub_def startsWith_def)
  note c = minimal_body_contract [of is_url_stub, OF u]
  have n: "get_prop ?ps ''branch'' = None" "get_prop ?ps ''target'' = None"
    "get_prop ?ps ''envVars'' = None"
    by (simp_all add: get_prop_def)
  from deploymentSchema_contract [of is_url_stub minimal_body] c
  obtain v where v: "deploymentSchema_parse is_url_stub minimal_body = Inr v"
    by blast
  from deploymentSchema_contract [of is_url_stub minimal_body]
  have d: "get_prop ?ps ''branch'' = None \<longrightarrow> v_branch v = ''main''"
          "get_prop ?ps ''target'' = None \<longrightarrow> v_target v = production"
          "get_prop ?ps ''envVars'' = None \<longrightarrow> v_envVars v = []"
    using v unfolding minimal_body_def by blast+
  from v minimal_body_accepted [of is_url_stub, OF u] have name: "v_userName v = ''ab''"
    by (metis sum.inject(2) validatedData.select_convs(2))
  show ?thesis
  proof (intro conjI)
    show "server_contract is_url_stub minimal_body" by (rule c)
    show "get_prop ?ps ''branch'' = None" by (rule n(1))
    show "\<exists>v. deploymentSchema_parse is_url_stub minimal_body = Inr v
          \<and> v_userName v = ''ab'' \<and> v_branch v = ''main'' \<and> v_target v = production
          \<and> v_envVars v = []"
      using v name d n by (intro exI [of _ v]) (simp only: simp_thms)
  qed
qed

text \<open>
  C1 as it is worded gives the server the contract of the Client Validator. Whatever the URL
  test of the schema is, the two differ: when the test accepts
  \<open>https://github.com/acme/widget\<close>, the server accepts the request \<open>minimal_body\<close>, whose
  user name has two characters; when it does not, the server rejects \<open>scenario_body\<close>, which
  satisfies the contract of the form.
\<close>

theorem same_contract_counterexample:
  "\<not> (\<exists>is_url. \<forall>body. (\<exists>v. deploymentSchema_parse is_url body = Inr v) \<longleftrightarrow> field_contract body)"
proof
  assume "\<exists>is_url. \<forall>body. (\<exists>v. deploymentSchema_parse is_url body = Inr v) \<longleftrightarrow> field_contract body"
  then obtain is_url where
    same: "\<And>body. (\<exists>v. deploymentSchema_parse is_url body = Inr v) \<longleftrightarrow> field_contract body"
    by blast
  show False
  proof (cases "is_url ''https://github.com/acme/widget''")
    case True
    from minimal_body_accepted [of is_url, OF True] same [of minimal_body] minimal_body_short_name
    show False by blast
  next
    case False
    from scenario_body_rejected [of is_url, OF False] parse_accepts [of is_url scenario_body]
         same [of scenario_body] scenario_body_contract
    show False by blast
  qed
qed

text \<open>
  C2. The platform answers the create-deployment call with status 401. The handler throws
  \<open>new Error(JSON.stringify(errorData))\<close>, an object without \<open>status\<close>, so the branches of
  the \<open>catch\<close> on \<open>status === 401\<close> and \<open>status === 403\<close> are never taken: the text of the
  body decides, and here the response has status 500. No further call is issued.
\<close>

theorem unauthorized_status_lost:
  "POST is_url_stub unauthorized_platform (Body scenario_body)
     = ([CreateDeployment
           \<lparr>rq_name = ''widget-prod'', rq_target = production,
            rq_gitSource = \<lparr>gs_type = ''github'', gs_repo = ''widget'', gs_ref = ''main'',
                             gs_org = ''acme''\<rparr>,
            rq_alias = None\<rparr>],
        \<lparr>http_status = 500,
         http_body = Failed
           (stringify (JObj [(''error'', JObj [(''code'', JStr ''unauthorized''),
                                     (''message'', JStr ''Invalid token'')])]))
           ''Deployment failed. Check your Vercel token and repository permissions.''\<rparr>)"
  by code_simp

text \<open>
  C3. \<open>repo.replace('.git', '')\<close> removes the first \<open>.git\<close> of the repository segment,
  wherever it stands: the repository \<open>my.github.io\<close> is deployed as \<open>myhub.io\<close>.
\<close>

theorem git_inside_name_removed:
  "extractGitHubInfo ''https://github.com/acme/my.github.io''
     = Inr \<lparr>org = ''acme'', repo = ''myhub.io''\<rparr>
   \<and> fst (POST is_url_stub scenario_platform (Body pages_body))
     = [CreateDeployment
           \<lparr>rq_name = ''widget-prod'', rq_target = production,
            rq_gitSource = \<lparr>gs_type = ''github'', gs_repo = ''myhub.io'', gs_ref = ''main'',
                             gs_org = ''acme''\<rparr>,
            rq_alias = None\<rparr>]"
  by code_simp

text \<open>
  C4, as the handler has it. In every successful response the deployment URL and the
  inspector URL are the platform's values made absolute: nothing where the platform gives no
  value, the value itself where it carries the scheme \<open>http://\<close> or \<open>https://\<close>, and the
  value behind \<open>https://\<close> where it does not begin with \<open>http\<close>. So \<open>my-app.vercel.app\<close>
  becomes \<open>https://my-app.vercel.app\<close>, and \<open>https://my-app.vercel.app\<close> stays as it is.
\<close>

theorem response_urls_normalized:
  assumes "POST is_url pf rq = (calls, r)" and "response_deployment (http_body r) = Some d"
  shows "\<exists>c p. CreateDeployment c \<in> set calls \<and> createDeployment pf c = Ok p
           \<and> (\<forall>(u, x) \<in> {(p_url p, deployment_url d), (p_inspectorUrl p, deployment_inspectorUrl d)}.
                 normalized u x
               \<and> (u = Some ''my-app.vercel.app'' \<longrightarrow> x = Some ''https://my-app.vercel.app'')
               \<and> (u = Some ''https://my-app.vercel.app'' \<longrightarrow> x = Some ''https://my-app.vercel.app''))"
proof -
  from assms(2) obtain dr er m where b: "http_body r = Created d dr er m"
    by (cases "http_body r") auto
  from POST_Created [OF assms(1) b] obtain v info p where
    ok: "createDeployment pf (deploy_request v info) = Ok p" and
    calls: "calls = CreateDeployment (deploy_request v info)
                      # fst (add_domain pf v) @ fst (add_envVars pf v)" and
    r: "r = \<lparr>http_status = 200,
             http_body = Created (deployment_of p) (snd (add_domain pf v))
                           (snd (add_envVars pf v)) ''Deployment created successfully!''\<rparr>"
    by blast
  from r b have d: "d = deployment_of p" by simp
  have "normalized u (absoluteUrl u)
      \<and> (u = Some ''my-app.vercel.app'' \<longrightarrow> absoluteUrl u = Some ''https://my-app.vercel.app'')
      \<and> (u = Some ''https://my-app.vercel.app'' \<longrightarrow> absoluteUrl u = Some ''https://my-app.vercel.app'')"
    for u
    using absoluteUrl_normalized [of u] by (auto simp: absoluteUrl_def startsWith_def)
  with ok calls d show ?thesis
    by (intro exI [of _ "deploy_request v info"] exI [of _ p]) (simp add: deployment_of_def)
qed

theorem response_urls_normalized_witness:
  "response_deployment (http_body (snd (POST is_url_stub scenario_platform (Body scenario_body))))
     = Some (deployment_of scenario_deployment)
   \<and> p_url scenario_deployment = Some ''my-app.vercel.app''
   \<and> deployment_url (deployment_of scenario_deployment) = Some ''https://my-app.vercel.app''
   \<and> deployment_inspectorUrl (deployment_of scenario_deployment)
       = Some ''https://vercel.com/acme/widget-prod/dpl_1''"
proof -
  let ?run = "POST is_url_stub scenario_platform (Body scenario_body)"
  have d: "response_deployment (http_body (snd ?run)) = Some (deployment_of scenario_deployment)"
    by code_simp
  from response_urls_normalized [OF prod.collapse [symmetric] d]
  obtain c p where "createDeployment scenario_platform c = Ok p"
    and n: "normalized (p_url p) (deployment_url (deployment_of scenario_deployment))"
           "normalized (p_inspectorUrl p) (deployment_inspectorUrl (deployment_of scenario_deployment))"
    by auto
  then have p: "p = scenario_deployment"
    by (simp add: scenario_platform_def)
  from n show ?thesis
    unfolding p using d by (simp add: normalized_def scenario_deployment_def)
qed

text \<open>
  C4 as it is worded asks for the \<open>https://\<close> form in every successful response. A URL
  that the platform sends with the scheme \<open>http\<close> is returned as it came.
\<close>

theorem response_urls_https_counterexample:
  "success (http_body (snd (POST is_url_stub http_platform (Body scenario_body))))
   \<and> map_option deployment_url
        (response_deployment (http_body (snd (POST is_url_stub http_platform (Body scenario_body)))))
       = Some (Some ''http://my-app.vercel.app'')
   \<and> \<not> prefix ''https://'' ''http://my-app.vercel.app''"
  by code_simp

text \<open>
  C5. In every run in which the create-deployment call is accepted and the domain-attach call
  fails, the outcome is a success: status 200, \<open>success = true\<close>, every field of the
  deployment object present with the value the handler builds from the platform's answer
  (\<open>id\<close>, \<open>status\<close>, \<open>alias\<close>, \<open>createdAt\<close> and \<open>readyAt\<close> as the platform gave them, the two
  URLs made absolute, the state \<open>"BUILDING"\<close>), \<open>domain.added = false\<close> and \<open>domain.error\<close>
  the message of the failure.
\<close>

theorem domain_failure_keeps_success:
  assumes "POST is_url pf rq = (calls, r)"
      and "CreateDeployment c \<in> set calls" and "createDeployment pf c = Ok p"
      and "AddProjectDomain n dn \<in> set calls" and "addProjectDomain pf n dn = Inl e"
  shows "http_status r = 200 \<and> success (http_body r)
       \<and> response_deployment (http_body r) = Some (deployment_of p)
       \<and> (\<exists>d. response_deployment (http_body r) = Some d
              \<and> deployment_id d = p_id p
              \<and> deployment_status d = p_status p
              \<and> deployment_url d = absoluteUrl (p_url p)
              \<and> deployment_alias d = p_alias p
              \<and> deployment_createdAt d = p_createdAt p
              \<and> deployment_readyAt d = p_ready p
              \<and> deployment_state d = ''BUILDING''
              \<and> deployment_inspectorUrl d = absoluteUrl (p_inspectorUrl p))
       \<and> response_domain (http_body r)
           = Some \<lparr>domain_name = dn, domain_status = ''error'', domain_added = False,
                   domain_error = Some (error_text e)\<rparr>"
proof -
  from POST_run [OF assms(1-3)] obtain v where
    calls: "calls = CreateDeployment c # fst (add_domain pf v) @ fst (add_envVars pf v)" and
    r: "r = \<lparr>http_status = 200,
             http_body = Created (deployment_of p) (snd (add_domain pf v))
                           (snd (add_envVars pf v)) ''Deployment created successfully!''\<rparr>"
    by blast
  from assms(4) calls
  have "truthy (v_domainName v)" and "n = v_projectName v" and "dn = the (v_domainName v)"
    by (auto simp: add_domain_calls add_envVars_calls split: if_splits)
  with assms(5)
  have "snd (add_domain pf v)
          = Some \<lparr>domain_name = dn, domain_status = ''error'', domain_added = False,
                  domain_error = Some (error_text e)\<rparr>"
    by (simp add: add_domain_def Let_def)
  with r show ?thesis by (simp add: deployment_of_def)
qed

theorem domain_failure_keeps_success_witness:
  "POST is_url_stub scenario_platform (Body domain_body)
     = ([CreateDeployment
           \<lparr>rq_name = ''widget-prod'', rq_target = production,
            rq_gitSource = \<lparr>gs_type = ''github'', gs_repo = ''widget'', gs_ref = ''main'',
                             gs_org = ''acme''\<rparr>,
            rq_alias = Some [''widget.example.com'']\<rparr>,
         AddProjectDomain ''widget-prod'' ''widget.example.com''],
        snd (POST is_url_stub scenario_platform (Body domain_body)))
   \<and> addProjectDomain scenario_platform ''widget-prod'' ''widget.example.com''
       = Inl (AnError ''Domain is already in use'')
   \<and> http_status (snd (POST is_url_stub scenario_platform (Body domain_body))) = 200
   \<and> response_deployment (http_body (snd (POST is_url_stub scenario_platform (Body domain_body))))
       = Some \<lparr>deployment_id = ''dpl_1'', deployment_status = ''QUEUED'',
               deployment_url = Some ''https://my-app.vercel.app'', deployment_alias = None,
               deployment_createdAt = 1700000000000, deployment_readyAt = None,
               deployment_state = ''BUILDING'',
               deployment_inspectorUrl = Some ''https://vercel.com/acme/widget-prod/dpl_1''\<rparr>
   \<and> response_domain (http_body (snd (POST is_url_stub scenario_platform (Body domain_body))))
       = Some \<lparr>domain_name = ''widget.example.com'', domain_status = ''error'',
               domain_added = False, domain_error = Some ''Domain is already in use''\<rparr>"
proof -
  let ?c = "\<lparr>rq_name = ''widget-prod'', rq_target = production,
            rq_gitSource = \<lparr>gs_type = ''github'', gs_repo = ''widget'', gs_ref = ''main'',
                             gs_org = ''acme''\<rparr>,
            rq_alias = Some [''widget.example.com'']\<rparr>"
  let ?r = "snd (POST is_url_stub scenario_platform (Body domain_body))"
  have calls: "fst (POST is_url_stub scenario_platform (Body domain_body))
     = [CreateDeployment ?c, AddProjectDomain ''widget-prod'' ''widget.example.com'']"
    by code_simp
  then have run: "POST is_url_stub scenario_platform (Body domain_body)
     = ([CreateDeployment ?c, AddProjectDomain ''widget-prod'' ''widget.example.com''], ?r)"
    by (metis prod.collapse)
  have ok: "createDeployment scenario_platform ?c = Ok scenario_deployment"
    by (simp add: scenario_platform_def)
  have fails: "addProjectDomain scenario_platform ''widget-prod'' ''widget.example.com''
       = Inl (AnError ''Domain is already in use'')"
    by (simp add: scenario_platform_def)
  from domain_failure_keeps_success [OF run _ ok _ fails]
  obtain d where d: "response_deployment (http_body ?r) = Some d"
    and fields: "deployment_id d = p_id scenario_deployment"
      "deployment_status d = p_status scenario_deployment"
      "deployment_url d = absoluteUrl (p_url scenario_deployment)"
      "deployment_alias d = p_alias scenario_deployment"
      "deployment_createdAt d = p_createdAt scenario_deployment"
      "deployment_readyAt d = p_ready scenario_deployment"
      "deployment_state d = ''BUILDING''"
      "deployment_inspectorUrl d = absoluteUrl (p_inspectorUrl scenario_deployment)"
    and status: "http_status ?r = 200"
    and dom: "response_domain (http_body ?r)
       = Some \<lparr>domain_name = ''widget.example.com'', domain_status = ''error'',
               domain_added = False, domain_error = Some (error_text (AnError ''Domain is already in use''))\<rparr>"
    by auto
  from fields have "d = \<lparr>deployment_id = ''dpl_1'', deployment_status = ''QUEUED'',
               deployment_url = Some ''https://my-app.vercel.app'', deployment_alias = None,
               deployment_createdAt = 1700000000000, deployment_readyAt = None,
               deployment_state = ''BUILDING'',
               deployment_inspectorUrl = Some ''https://vercel.com/acme/widget-prod/dpl_1''\<rparr>"
    by (cases d) (simp add: scenario_deployment_def absoluteUrl_def startsWith_def)
  with d status dom run fails show ?thesis
    by (simp add: error_text_def)
qed

text \<open>
  C6. When the Client Validator reports an error for the form, \<open>handleSubmit\<close> stores the
  errors, sets the status \<open>"error"\<close> with its message and returns: no network call, no dialog,
  no timer.
\<close>

theorem invalid_form_is_not_sent:
  assumes "fst (validateForm (formData st)) \<noteq> []"
  shows "handleSubmit network st
           = (st\<lparr>errors := fst (validateForm (formData st)), submitStatus := Error,
                 statusMessage := ''Please fix the errors above and try again.''\<rparr>, [])"
  using assms by (simp add: handleSubmit_def split_beta validateForm_flag)

theorem invalid_form_is_not_sent_witness:
  "fst (validateForm (formData initial_state))
     = [(''repositoryUrl'', ''Repository URL is required''),
        (''userName'', ''Username is required''),
        (''projectName'', ''Project name is required'')]
   \<and> snd (handleSubmit (\<lambda>body. NetworkError) initial_state) = []
   \<and> submitStatus (fst (handleSubmit (\<lambda>body. NetworkError) initial_state)) = Error"
proof -
  have e: "fst (validateForm (formData initial_state))
     = [(''repositoryUrl'', ''Repository URL is required''),
        (''userName'', ''Username is required''),
        (''projectName'', ''Project name is required'')]"
    by code_simp
  then have "fst (validateForm (formData initial_state)) \<noteq> []" by simp
  from invalid_form_is_not_sent [OF this, of "\<lambda>body. NetworkError"] e
  show ?thesis by simp
qed

text \<open>
  C7, as the validator has it. Every rule is checked on every call: for a form whose domain
  name does not end in a hyphen, the keys of the error mapping are exactly the fields whose
  rule is violated. So such a form gets the empty mapping when it satisfies all seven rules
  (the URL shape; a user name that is not blank and has at least 3 characters; a password
  that is empty or has at least 6 characters; a project name in the allowed characters; a
  branch that is not blank; a domain that is empty or a bare host-name label; environment
  variables whose keys and values are not blank), and exactly the key of a field when it
  violates the rule of that field and no other.
\<close>

theorem validateForm_reports_every_violated_rule:
  assumes "domainName f = [] \<or> last (domainName f) \<noteq> CHR ''-''"
  shows "fst ` set (fst (validateForm f)) = violated f
       \<and> (violated f = {} \<longrightarrow> validateForm f = ([], True))
       \<and> (\<forall>k. violated f = {k} \<longrightarrow>
             map fst (fst (validateForm f)) = [k] \<and> \<not> snd (validateForm f))"
proof -
  from validateForm_keys [of f] violated_without_hyphen_end [OF assms]
  have keys: "fst ` set (fst (validateForm f)) = violated f"
    and dist: "distinct (map fst (fst (validateForm f)))"
    by simp_all
  have 1: "validateForm f = ([], True)" if "violated f = {}"
  proof -
    from keys that have "fst (validateForm f) = []" by simp
    then show ?thesis
      using validateForm_flag [of f] by (simp add: prod_eq_iff)
  qed
  have 2: "map fst (fst (validateForm f)) = [k] \<and> \<not> snd (validateForm f)"
    if "violated f = {k}" for k
  proof -
    from keys that have "set (map fst (fst (validateForm f))) = {k}" by simp
    with dist have "map fst (fst (validateForm f)) = [k]"
      by (intro distinct_singleton)
    then show ?thesis
      using validateForm_flag [of f] by auto
  qed
  from keys 1 2 show ?thesis by blast
qed

theorem validateForm_reports_every_violated_rule_witness:
  "domainName scenario_form = [] \<and> domainName blank_name_form = []
   \<and> violated scenario_form = {} \<and> validateForm scenario_form = ([], True)
   \<and> violated blank_name_form = {''userName''}
   \<and> map fst (fst (validateForm blank_name_form)) = [''userName'']"
proof -
  have d: "domainName scenario_form = []" "domainName blank_name_form = []"
    by (simp_all add: blank_name_form_def scenario_form_def)
  have a: "violated scenario_form = {}"
    using url_shape_widget project_charset_widget
    by (auto simp: violated_def violated_with_def scenario_form_def blank_def is_ws_def)
  have b: "violated blank_name_form = {''userName''}"
    using url_shape_widget project_charset_widget
    by (auto simp: violated_def violated_with_def blank_name_form_def scenario_form_def
                   blank_def is_ws_def)
  from validateForm_reports_every_violated_rule [of scenario_form]
       validateForm_reports_every_violated_rule [of blank_name_form] a b d
  show ?thesis by simp
qed

text \<open>
  C7 as it is worded takes a form for well-formed when it has a valid URL shape, a user name
  of at least 3 characters, a project name in the allowed characters and a non-empty branch.
  A user name of three spaces has 3 characters, and the validator reports it as missing.
\<close>

theorem well_formed_as_worded_counterexample:
  "url_shape (repositoryUrl blank_name_form) \<and> 3 \<le> length (userName blank_name_form)
   \<and> project_charset (projectName blank_name_form) \<and> branch blank_name_form \<noteq> []
   \<and> password blank_name_form = [] \<and> domainName blank_name_form = []
   \<and> envVars blank_name_form = []
   \<and> validateForm blank_name_form = ([(''userName'', ''Username is required'')], False)"
proof -
  have "validateForm blank_name_form = ([(''userName'', ''Username is required'')], False)"
    by code_simp
  then show ?thesis
    using url_shape_widget project_charset_widget
    by (simp add: blank_name_form_def scenario_form_def)
qed

text \<open>
  C8. An edit of an environment-variable row goes through \<open>updateEnvVar\<close>, which leaves the
  error mapping as it is: after the only row has been given a key and a value, the entry for
  \<open>envVars\<close> is still there. This holds after a submission of the empty form and after a
  submission that the enabled button allows (\<open>submitted_state\<close>), where an edit of the user
  name removes the entry of the user name and no other. (In general:
  \<open>updateEnvVar_errors\<close>, \<open>handleInputChange_errors\<close>.)
\<close>

theorem envVar_edit_keeps_error:
  "map_of (errors flagged_state) ''envVars''
     = Some ''All environment variables must have both key and value''
   \<and> envVars (formData (updateEnvVar 0 F_value ''x'' (updateEnvVar 0 F_key ''API_KEY'' flagged_state)))
     = [\<lparr>key = ''API_KEY'', val = ''x''\<rparr>]
   \<and> map_of (errors (updateEnvVar 0 F_value ''x'' (updateEnvVar 0 F_key ''API_KEY'' flagged_state)))
        ''envVars''
     = Some ''All environment variables must have both key and value''
   \<and> errors submitted_state
     = [(''userName'', ''Username must be at least 3 characters''),
        (''envVars'', ''All environment variables must have both key and value'')]
   \<and> envVars (formData (updateEnvVar 0 F_value ''x'' (updateEnvVar 0 F_key ''API_KEY'' submitted_state)))
     = [\<lparr>key = ''API_KEY'', val = ''x''\<rparr>]
   \<and> errors (updateEnvVar 0 F_value ''x'' (updateEnvVar 0 F_key ''API_KEY'' submitted_state))
     = [(''userName'', ''Username must be at least 3 characters''),
        (''envVars'', ''All environment variables must have both key and value'')]
   \<and> errors (handleInputChange F_userName ''abc'' submitted_state)
     = [(''envVars'', ''All environment variables must have both key and value'')]"
  by code_simp

text \<open>
  C9, as the handler has it. For every validated input with a non-empty list of environment
  variables, in a run whose create-deployment call is accepted, the handler issues exactly one
  upsert call; the call carries every pair, each with target \<open>["production"]\<close> and type
  \<open>"plain"\<close>. The response is a success either way: when the call succeeds it reports
  \<open>added = true\<close>, the length of the list and the keys; when it fails it reports
  \<open>added = false\<close> and the message.
\<close>

theorem envVars_upsert:
  assumes "deploymentSchema_parse is_url body = Inr v" and "v_envVars v \<noteq> []"
      and "POST is_url pf (Body body) = (calls, r)"
      and "CreateDeployment c \<in> set calls" and "createDeployment pf c = Ok p"
  shows "filter is_CreateProjectEnv calls
           = [CreateProjectEnv (v_projectName v) ''true'' (env_entries (v_envVars v))]
       \<and> map (\<lambda>e. (e_key e, e_value e)) (env_entries (v_envVars v))
           = map (\<lambda>x. (key x, val x)) (v_envVars v)
       \<and> (\<forall>e \<in> set (env_entries (v_envVars v)). e_target e = [''production''] \<and> e_type e = ''plain'')
       \<and> http_status r = 200 \<and> success (http_body r)
       \<and> (\<forall>u. createProjectEnv pf (v_projectName v) (env_entries (v_envVars v)) = Inr u \<longrightarrow>
             response_envVars (http_body r)
               = Some \<lparr>envVars_added = True, envVars_count = length (v_envVars v),
                       envVars_variables = Some (map key (v_envVars v)), envVars_error = None\<rparr>)
       \<and> (\<forall>e. createProjectEnv pf (v_projectName v) (env_entries (v_envVars v)) = Inl e \<longrightarrow>
             response_envVars (http_body r)
               = Some \<lparr>envVars_added = False, envVars_count = 0,
                       envVars_variables = None, envVars_error = Some (error_text e)\<rparr>)"
proof -
  from POST_run [OF assms(3-5)] assms(1) have
    calls: "calls = CreateDeployment c # fst (add_domain pf v) @ fst (add_envVars pf v)" and
    r: "r = \<lparr>http_status = 200,
             http_body = Created (deployment_of p) (snd (add_domain pf v))
                           (snd (add_envVars pf v)) ''Deployment created successfully!''\<rparr>"
    by auto
  have 1: "filter is_CreateProjectEnv calls
           = [CreateProjectEnv (v_projectName v) ''true'' (env_entries (v_envVars v))]"
    using assms(2) by (simp add: calls add_domain_calls add_envVars_calls)
  have 2: "map (\<lambda>e. (e_key e, e_value e)) (env_entries (v_envVars v))
           = map (\<lambda>x. (key x, val x)) (v_envVars v)"
    by (simp add: env_entries_def comp_def)
  have 3: "\<forall>e \<in> set (env_entries (v_envVars v)). e_target e = [''production''] \<and> e_type e = ''plain''"
    by (auto simp: env_entries_def)
  have 4: "http_status r = 200 \<and> success (http_body r)"
    by (simp add: r)
  have 5: "response_envVars (http_body r)
               = Some \<lparr>envVars_added = True, envVars_count = length (v_envVars v),
                       envVars_variables = Some (map key (v_envVars v)), envVars_error = None\<rparr>"
    if "createProjectEnv pf (v_projectName v) (env_entries (v_envVars v)) = Inr u" for u
    using that assms(2) by (simp add: r add_envVars_def Let_def)
  have 6: "response_envVars (http_body r)
               = Some \<lparr>envVars_added = False, envVars_count = 0,
                       envVars_variables = None, envVars_error = Some (error_text e)\<rparr>"
    if "createProjectEnv pf (v_projectName v) (env_entries (v_envVars v)) = Inl e" for e
    using that assms(2) by (simp add: r add_envVars_def Let_def)
  from 1 2 3 4 5 6 show ?thesis by blast
qed

theorem envVars_upsert_witness:
  "deploymentSchema_parse is_url_stub envVars_body
     = Inr \<lparr>v_repositoryUrl = ''https://github.com/acme/widget'', v_userName = ''alice'',
            v_password = None, v_domainName = None, v_projectName = ''widget-prod'',
            v_branch = ''main'', v_target = production,
            v_envVars = [\<lparr>key = ''API_KEY'', val = ''x''\<rparr>, \<lparr>key = ''MODE'', val = ''fast''\<rparr>]\<rparr>
   \<and> filter is_CreateProjectEnv (fst (POST is_url_stub scenario_platform (Body envVars_body)))
       = [CreateProjectEnv ''widget-prod'' ''true''
            [\<lparr>e_key = ''API_KEY'', e_value = ''x'', e_target = [''production''], e_type = ''plain''\<rparr>,
             \<lparr>e_key = ''MODE'', e_value = ''fast'', e_target = [''production''], e_type = ''plain''\<rparr>]]
   \<and> http_status (snd (POST is_url_stub scenario_platform (Body envVars_body))) = 200
   \<and> response_envVars (http_body (snd (POST is_url_stub scenario_platform (Body envVars_body))))
       = Some \<lparr>envVars_added = True, envVars_count = 2,
               envVars_variables = Some [''API_KEY'', ''MODE''], envVars_error = None\<rparr>"
proof -
  let ?v = "\<lparr>v_repositoryUrl = ''https://github.com/acme/widget'', v_userName = ''alice'',
            v_password = None, v_domainName = None, v_projectName = ''widget-prod'',
            v_branch = ''main'', v_target = production,
            v_envVars = [\<lparr>key = ''API_KEY'', val = ''x''\<rparr>, \<lparr>key = ''MODE'', val = ''fast''\<rparr>]\<rparr>"
  let ?run = "POST is_url_stub scenario_platform (Body envVars_body)"
  let ?c = "deploy_request ?v \<lparr>org = ''acme'', repo = ''widget''\<rparr>"
  have parse: "deploymentSchema_parse is_url_stub envVars_body = Inr ?v"
    by code_simp
  have nonempty: "v_envVars ?v \<noteq> []"
    by simp
  have issued: "CreateDeployment ?c \<in> set (fst ?run)"
    by code_simp
  have ok: "createDeployment scenario_platform ?c = Ok scenario_deployment"
    by (simp add: scenario_platform_def)
  have stored: "createProjectEnv scenario_platform (v_projectName ?v) (env_entries (v_envVars ?v)) = Inr ()"
    by (simp add: scenario_platform_def)
  from envVars_upsert [OF parse nonempty prod.collapse [symmetric] issued ok] stored parse
  show ?thesis
    by (simp add: env_entries_def)
qed

text \<open>
  C9 as it is worded speaks of every validated input. When the platform rejects the
  create-deployment call, the handler stops there and the upsert call is never issued.
\<close>

theorem envVars_upsert_counterexample:
  "(case deploymentSchema_parse is_url_stub envVars_body of
      Inr v \<Rightarrow> v_envVars v = [\<lparr>key = ''API_KEY'', val = ''x''\<rparr>, \<lparr>key = ''MODE'', val = ''fast''\<rparr>]
    | Inl _ \<Rightarrow> False)
   \<and> filter is_CreateProjectEnv (fst (POST is_url_stub unauthorized_platform (Body envVars_body))) = []"
  by code_simp

text \<open>
  C10. Every successful response of \<open>POST /api/deploy\<close> carries the deployment state
  \<open>"BUILDING"\<close>, whatever the platform answered (its \<open>readyState\<close> and \<open>status\<close> included).
\<close>

theorem POST_state_BUILDING:
  "http_body (snd (POST is_url pf rq)) = Created d dr er m \<Longrightarrow> deployment_state d = ''BUILDING''"
  using POST_Created [of is_url pf rq "fst (POST is_url pf rq)" "snd (POST is_url pf rq)" d dr er m]
  by (auto simp: deployment_of_def)

theorem POST_state_BUILDING_witness:
  "http_body (snd (POST is_url_stub scenario_platform (Body scenario_body)))
     = Created (deployment_of scenario_deployment) None None ''Deployment created successfully!''
   \<and> p_readyState scenario_deployment = ''QUEUED''
   \<and> deployment_state (deployment_of scenario_deployment) = ''BUILDING''"
proof -
  have run: "http_body (snd (POST is_url_stub scenario_platform (Body scenario_body)))
     = Created (deployment_of scenario_deployment) None None ''Deployment created successfully!''"
    by code_simp
  show ?thesis
    using run POST_state_BUILDING [OF run] by (simp add: scenario_deployment_def)
qed

end
